theory Spec2Isabelle
  imports
    Complex_Main
    "HOL-Library.Char_ord"
    "HOL-Library.List_Lexorder"
    "HOL-Library.Product_Lexorder"
begin

section \<open>Scaling plots: tables, metrics and the two scripts\<close>

text \<open>
  A shallow embedding of \<^verbatim>\<open>scaling_plot.py\<close> and
  \<^verbatim>\<open>scaling_plot_categorical.py\<close>. A pandas data frame is a list of rows, a
  column is a record field. Walltimes are exact reals: the rounding of IEEE doubles is
  not modelled; a missing value (NaN) and the outcome of a division by zero are. Reading
  the spreadsheet and rendering with matplotlib are outside the model: a run starts from
  the table that was read and records which series each plot function draws and which
  files it saves. Of matplotlib, the model has the exception for a series that does not
  fit the x axis.
\<close>

subsection \<open>Cells, rows and exceptions\<close>

text \<open>
  A numeric cell of a data frame: \<open>None\<close> is NaN, which is also how pandas reads an
  empty spreadsheet cell. A boolean cell stands for 1.0 and 0.0, as it does in pandas'
  comparisons and means.
\<close>

type_synonym cell = "real option"

text \<open>
  The value of a quotient series. numpy divides by zero without raising: the result is
  an infinity or NaN, and NaN operands give NaN. All of these are \<open>NonFinite\<close>.
\<close>

datatype metric = Finite real | NonFinite

text \<open>An uncaught Python exception, by the name of its class.\<close>

type_synonym exn = string

abbreviation TypeError :: exn where "TypeError \<equiv> ''TypeError''"
abbreviation ZeroDivisionError :: exn where "ZeroDivisionError \<equiv> ''ZeroDivisionError''"
abbreviation IndexError :: exn where "IndexError \<equiv> ''IndexError''"
abbreviation ImportError :: exn where "ImportError \<equiv> ''ImportError''"
abbreviation ValueError :: exn where "ValueError \<equiv> ''ValueError''"

text \<open>
  The columns both scripts read: \<open>walltime\<close>, and the column named by
  \<^verbatim>\<open>--filter_column\<close> (read only when that option is given). The scaling script
  adds \<open>group\<close> and \<open>compute_elements\<close>, the categorical script the column named by
  \<^verbatim>\<open>--category_column\<close>.
\<close>

record table_row =
  walltime :: cell
  filter_value :: cell

record scaling_row = table_row +
  group_col :: "string option"
  compute_elements :: "int option"

record categorical_row = table_row +
  category :: "string option"

subsection \<open>Series arithmetic\<close>

text \<open>\<^verbatim>\<open>series > 0\<close>: a comparison with NaN is false.\<close>

fun gt0 :: "cell \<Rightarrow> bool" where
  "gt0 None = False"
| "gt0 (Some x) = (0 < x)"

text \<open>\<^verbatim>\<open>t1 / series\<close>, elementwise.\<close>

fun np_div :: "cell \<Rightarrow> cell \<Rightarrow> metric" where
  "np_div (Some a) (Some b) = (if b = 0 then NonFinite else Finite (a / b))"
| "np_div _ _ = NonFinite"

text \<open>\<^verbatim>\<open>rdf[time_col_index] * rdf[compute_element_col_index]\<close>, elementwise.\<close>

fun np_mul :: "cell \<Rightarrow> int option \<Rightarrow> cell" where
  "np_mul (Some w) (Some n) = Some (w * of_int n)"
| "np_mul _ _ = None"

text \<open>
  \<^verbatim>\<open>float(series)\<close>: pandas converts a series of exactly one element and raises
  TypeError for any other length.
\<close>

fun to_float :: "cell list \<Rightarrow> exn + cell" where
  "to_float [x] = Inr x"
| "to_float _ = Inl TypeError"

text \<open>\<^verbatim>\<open>Series.mean()\<close>: NaN entries are skipped; the mean of nothing is NaN.\<close>

definition present :: "cell list \<Rightarrow> real list" where
  "present xs = [v. Some v \<leftarrow> xs]"

definition mean :: "cell list \<Rightarrow> cell" where
  "mean xs = (if present xs = [] then None
              else Some (sum_list (present xs) / real (length (present xs))))"

subsection \<open>The metric engine\<close>

definition calculate_speedup_and_efficiency ::
  "scaling_row list \<Rightarrow> exn + (metric list \<times> metric list \<times> metric list)" where
  "calculate_speedup_and_efficiency rdf =
     (case to_float (map walltime (filter (\<lambda>r. compute_elements r = Some 1) rdf)) of
        Inl e \<Rightarrow> Inl e
      | Inr t1 \<Rightarrow>
          (let speedup = map (\<lambda>r. np_div t1 (walltime r)) rdf;
               strong_efficiency =
                 map (\<lambda>r. np_div t1 (np_mul (walltime r) (compute_elements r))) rdf;
               weak_efficiency = map (\<lambda>r. np_div t1 (walltime r)) rdf
           in Inr (speedup, strong_efficiency, weak_efficiency)))"

subsection \<open>Filter and aggregate\<close>

record common_args =
  style :: string
  filter_column :: string
  title_prefix :: "string option"
  file_prefix_arg :: "string option"
  window :: bool

record scaling_args = common_args +
  weak :: bool

record categorical_args = common_args +
  baseline_category :: string
  file_extension :: string
  tight :: bool

text \<open>
  Lines 425--430 of \<^verbatim>\<open>scaling_plot.py\<close>: the rows with a group and a positive
  walltime, then, when a filter column is named, those whose filter cell is positive.
\<close>

definition filter_results :: "scaling_args \<Rightarrow> scaling_row list \<Rightarrow> scaling_row list" where
  "filter_results args results =
     (let results = filter (\<lambda>r. group_col r \<noteq> None \<and> gt0 (walltime r)) results
      in if filter_column args \<noteq> []
         then filter (\<lambda>r. gt0 (filter_value r)) results
         else results)"

text \<open>Lines 192--197 of \<^verbatim>\<open>scaling_plot_categorical.py\<close>, the same on the category.\<close>

definition filter_results_categorical ::
  "categorical_args \<Rightarrow> categorical_row list \<Rightarrow> categorical_row list" where
  "filter_results_categorical args results =
     (let results = filter (\<lambda>r. category r \<noteq> None \<and> gt0 (walltime r)) results
      in if filter_column args \<noteq> []
         then filter (\<lambda>r. gt0 (filter_value r)) results
         else results)"

text \<open>
  \<^verbatim>\<open>results.groupby(['group','compute_elements']).mean().reset_index()\<close>: one row per
  key, in ascending order of the keys; a row whose key has a missing part belongs to no
  group. Every other column holds the mean over the rows of the key.
\<close>

definition group_keys :: "scaling_row list \<Rightarrow> (string \<times> int) list" where
  "group_keys results =
     sort (remdups [(g, n). r \<leftarrow> results, Some g \<leftarrow> [group_col r],
                            Some n \<leftarrow> [compute_elements r]])"

definition groupby_mean :: "scaling_row list \<Rightarrow> scaling_row list" where
  "groupby_mean results =
     map (\<lambda>(g, n).
            (let members = filter (\<lambda>r. group_col r = Some g \<and> compute_elements r = Some n)
                             results
             in \<lparr>walltime = mean (map walltime members),
                 filter_value = mean (map filter_value members),
                 group_col = Some g, compute_elements = Some n\<rparr>))
         (group_keys results)"

text \<open>\<^verbatim>\<open>results.groupby([args.category_column]).mean().reset_index()\<close>.\<close>

definition category_keys :: "categorical_row list \<Rightarrow> string list" where
  "category_keys results = sort (remdups [c. r \<leftarrow> results, Some c \<leftarrow> [category r]])"

definition groupby_mean_categorical :: "categorical_row list \<Rightarrow> categorical_row list" where
  "groupby_mean_categorical results =
     map (\<lambda>c.
            (let members = filter (\<lambda>r. category r = Some c) results
             in \<lparr>walltime = mean (map walltime members),
                 filter_value = mean (map filter_value members),
                 category = Some c\<rparr>))
         (category_keys results)"

subsection \<open>Group frames and series assembly\<close>

text \<open>\<^verbatim>\<open>Series.unique()\<close>: the distinct values in order of first appearance.\<close>

definition unique :: "'a list \<Rightarrow> 'a list" where
  "unique xs = rev (remdups (rev xs))"

text \<open>
  \<^verbatim>\<open>df.sort('compute_elements', ascending=True)\<close>, the method of pandas before
  0.20: ascending, missing values last.
\<close>

fun compute_elements_key :: "int option \<Rightarrow> nat \<times> int" where
  "compute_elements_key (Some n) = (0, n)"
| "compute_elements_key None = (1, 0)"

definition sort_frame :: "scaling_row list \<Rightarrow> scaling_row list" where
  "sort_frame df = sort_key (\<lambda>r. compute_elements_key (compute_elements r)) df"

text \<open>
  Lines 437--444: the dictionary of group frames, in insertion order. A missing group
  equals nothing, so its frame is empty and \<^verbatim>\<open>if len(df)\<close> leaves it out.
\<close>

definition group_dataframes :: "scaling_row list \<Rightarrow> (string \<times> scaling_row list) list" where
  "group_dataframes results =
     [(g, sort_frame df).
        Some g \<leftarrow> unique (map group_col results),
        df \<leftarrow> [filter (\<lambda>r. group_col r = Some g) results],
        df \<noteq> []]"

text \<open>A group frame with the three columns that lines 447--452 add to it.\<close>

record group_frame =
  frame :: "scaling_row list"
  speedup :: "metric list"
  strong_efficiency :: "metric list"
  weak_efficiency :: "metric list"

fun calculate_all ::
  "(string \<times> scaling_row list) list \<Rightarrow> exn + (string \<times> group_frame) list" where
  "calculate_all [] = Inr []"
| "calculate_all ((name, data) # rest) =
     (case calculate_speedup_and_efficiency data of
        Inl e \<Rightarrow> Inl e
      | Inr (sp, se, we) \<Rightarrow>
          (case calculate_all rest of
             Inl e \<Rightarrow> Inl e
           | Inr frames \<Rightarrow>
               Inr ((name, \<lparr>frame = data, speedup = sp, strong_efficiency = se,
                            weak_efficiency = we\<rparr>) # frames)))"

text \<open>\<^verbatim>\<open>np.sort(results.compute_elements.unique())\<close>, the shared x axis.\<close>

definition x_axis :: "scaling_row list \<Rightarrow> int option list" where
  "x_axis results = sort_key compute_elements_key (unique (map compute_elements results))"

text \<open>
  Lines 457--472: the parallel lists handed to the plot functions. Axis limits
  (\<^verbatim>\<open>max_walltime\<close>, \<^verbatim>\<open>xmax\<close>), titles and labels only parametrise the rendering
  and are left out.
\<close>

record assembled =
  walltimes :: "cell list list"
  strong_efficiencies :: "metric list list"
  weak_efficiencies :: "metric list list"
  speedups :: "metric list list"
  series_names :: "string list"

definition assemble :: "(string \<times> group_frame) list \<Rightarrow> assembled" where
  "assemble frames =
     \<lparr>walltimes = map (\<lambda>(name, data). map walltime (frame data)) frames,
      strong_efficiencies = map (\<lambda>(name, data). strong_efficiency data) frames,
      weak_efficiencies = map (\<lambda>(name, data). weak_efficiency data) frames,
      speedups = map (\<lambda>(name, data). speedup data) frames,
      series_names = map (\<lambda>(name, data). name) frames\<rparr>"

text \<open>The palette of lines 400--411, a local of the main block.\<close>

definition colours :: "string list" where
  "colours = [''#00a9ce'', ''#78be20'', ''#DF1995'', ''#E87722'', ''#E4002B'',
              ''#00616c'', ''#FFB81C'', ''#6D2077'', ''#1E22AA'']"

subsection \<open>The world outside: styles, directories, files, the terminal\<close>

abbreviation OSError :: exn where "OSError \<equiv> ''OSError''"

record world =
  styles :: "string list"
  style_in_use :: string
  dirs :: "string list"
  saved :: "string list"
  shown :: nat
  printed :: "string list"

text \<open>
  \<^verbatim>\<open>matplotlib.style.use\<close>: a style the library does not know raises OSError
  (IOError is the same class in Python 3).
\<close>

definition style_use :: "string \<Rightarrow> world \<Rightarrow> exn + world" where
  "style_use s w = (if s \<in> set (styles w) then Inr (w\<lparr>style_in_use := s\<rparr>) else Inl OSError)"

text \<open>Lines 368--373 of \<^verbatim>\<open>scaling_plot.py\<close>: a bare \<^verbatim>\<open>except: pass\<close>.\<close>

definition use_style :: "scaling_args \<Rightarrow> world \<Rightarrow> world" where
  "use_style args w =
     (if style args \<noteq> []
      then (case style_use (style args) w of Inr w' \<Rightarrow> w' | Inl e \<Rightarrow> w)
      else w)"

text \<open>
  Lines 159--167 of \<^verbatim>\<open>scaling_plot_categorical.py\<close>: only OSError is caught, and a
  warning is printed.
\<close>

definition use_style_categorical :: "categorical_args \<Rightarrow> world \<Rightarrow> exn + world" where
  "use_style_categorical args w =
     (if style args \<noteq> []
      then (case style_use (style args) w of
              Inr w' \<Rightarrow> Inr w'
            | Inl e \<Rightarrow>
                if e = OSError
                then Inr (w\<lparr>printed := printed w @
                       [''Warning: '' @ [CHR 0x27] @ style args @ [CHR 0x27] @
                        '' is not a valid matplotlib style. Using default style.'']\<rparr>)
                else Inl e)
      else Inr w)"

text \<open>\<^verbatim>\<open>os.path.split\<close> and \<^verbatim>\<open>os.path.join\<close> of two parts, as posixpath has them.\<close>

definition os_path_split :: "string \<Rightarrow> string \<times> string" where
  "os_path_split p =
     (let tail = rev (takeWhile (\<lambda>c. c \<noteq> CHR ''/'') (rev p));
          head = take (length p - length tail) p
      in if head \<noteq> [] \<and> \<not> list_all (\<lambda>c. c = CHR ''/'') head
         then (rev (dropWhile (\<lambda>c. c = CHR ''/'') (rev head)), tail)
         else (head, tail))"

definition os_path_join :: "string \<Rightarrow> string \<Rightarrow> string" where
  "os_path_join a b =
     (if b \<noteq> [] \<and> hd b = CHR ''/'' then b
      else if a = [] \<or> last a = CHR ''/'' then a @ b
      else a @ ''/'' @ b)"

text \<open>
  \<^verbatim>\<open>os.makedirs\<close>: the head of the path (of its head, when the path ends with a
  slash) is created first when it is missing, then the directory itself. The library
  returns early when the last part is \<open>.\<close>, the directory then being there; here it
  is added alike. \<^verbatim>\<open>mkdir\<close> is taken to succeed.
\<close>

definition parent :: "string \<Rightarrow> string \<times> string" where
  "parent name =
     (if snd (os_path_split name) = [] then os_path_split (fst (os_path_split name))
      else os_path_split name)"

function makedirs :: "string \<Rightarrow> string list \<Rightarrow> string list" where
  "makedirs name ds =
     (if fst (parent name) \<noteq> [] \<and> snd (parent name) \<noteq> [] \<and> fst (parent name) \<notin> set ds
      then makedirs (fst (parent name)) ds
      else ds) @ [name]"
  by pat_completeness auto
termination
proof (relation "measure (\<lambda>(name, ds). length name)")
  show "wf (measure (\<lambda>(name, ds). length name))" by simp
next
  fix name :: string and ds :: "string list"
  assume a: "fst (parent name) \<noteq> [] \<and> snd (parent name) \<noteq> [] \<and> fst (parent name) \<notin> set ds"
  have len: "length (fst (os_path_split p)) + length (snd (os_path_split p)) \<le> length p"
    for p
  proof -
    let ?tail = "rev (takeWhile (\<lambda>c. c \<noteq> CHR ''/'') (rev p))"
    let ?head = "take (length p - length ?tail) p"
    have t: "length ?tail \<le> length p"
      using length_takeWhile_le [of "\<lambda>c. c \<noteq> CHR ''/''" "rev p"] by simp
    have d: "length (rev (dropWhile (\<lambda>c. c = CHR ''/'') (rev ?head))) \<le> length ?head"
      using length_dropWhile_le [of "\<lambda>c. c = CHR ''/''" "rev ?head"] by simp
    have h: "length ?head = length p - length ?tail" by simp
    show ?thesis
      unfolding os_path_split_def Let_def
      using t d h by (simp only: fst_conv snd_conv split: if_split) linarith
  qed
  have pos: "0 < length (snd (parent name))" using a by simp
  have "length (fst (parent name)) < length name"
  proof (cases "snd (os_path_split name) = []")
    case True
    then have eq: "parent name = os_path_split (fst (os_path_split name))"
      by (simp add: parent_def)
    have "0 < length (snd (os_path_split (fst (os_path_split name))))"
      using pos unfolding eq .
    then show ?thesis
      unfolding eq using len [of "fst (os_path_split name)"] len [of name] by linarith
  next
    case False
    then have eq: "parent name = os_path_split name" by (simp add: parent_def)
    have "0 < length (snd (os_path_split name))" using pos unfolding eq .
    then show ?thesis unfolding eq using len [of name] by linarith
  qed
  then show "((fst (parent name), ds), (name, ds)) \<in> measure (\<lambda>(name, ds). length name)"
    by simp
qed

declare makedirs.simps [simp del]

text \<open>
  \<^verbatim>\<open>save\<close> (lines 77--127), always called with \<^verbatim>\<open>close=True, verbose=True\<close>.
  \<^verbatim>\<open>plt.savefig\<close> is taken to succeed.
\<close>

definition save :: "string \<Rightarrow> string \<Rightarrow> world \<Rightarrow> world" where
  "save path ext w =
     (let directory = fst (os_path_split path);
          filename = snd (os_path_split path) @ ''.'' @ ext;
          directory = (if directory = [] then ''.'' else directory);
          w = (if directory \<notin> set (dirs w) then w\<lparr>dirs := makedirs directory (dirs w)\<rparr>
               else w);
          savepath = os_path_join directory filename
      in w\<lparr>saved := saved w @ [savepath],
           printed := printed w @
             [''Saving figure to '' @ [CHR 0x27] @ savepath @ [CHR 0x27] @ ''...'', ''Done'']\<rparr>)"

definition add_optional_prefix :: "string \<Rightarrow> string option \<Rightarrow> string \<Rightarrow> string" where
  "add_optional_prefix base_string prefix separator =
     (case prefix of
        None \<Rightarrow> base_string
      | Some p \<Rightarrow> if p \<noteq> [] then p @ separator @ base_string else base_string)"

subsection \<open>The plot functions\<close>

text \<open>
  What a plot function draws is the list its loop runs over,
  \<^verbatim>\<open>zip(series, colours, series_names)\<close>: one entry (values, colour, name) per call of
  \<^verbatim>\<open>ax.bar\<close> or \<^verbatim>\<open>ax.plot\<close>. Of what matplotlib does with an entry, one thing is
  modelled: it raises ValueError for a series whose length is not that of the x axis
  (the matplotlib of the time of \<^verbatim>\<open>DataFrame.sort\<close> does not broadcast a series of
  one value), and the run ends there. The figure is then shown, or saved. The parameters \<^verbatim>\<open>colours\<close>, \<^verbatim>\<open>series_names\<close>, \<^verbatim>\<open>compute_elements\<close>
  and \<^verbatim>\<open>file_extension\<close> are \<open>palette\<close>, \<open>names\<close>, \<open>xs\<close> and \<open>ext\<close> here, since
  the source's names are those of columns and options.
\<close>

text \<open>Every series drawn has as many values as the x axis has ticks.\<close>

definition fits :: "'a list \<Rightarrow> ('v list \<times> string \<times> string) list \<Rightarrow> bool" where
  "fits xs drawn = list_all (\<lambda>(values, colour, name). length values = length xs) drawn"

definition plot_walltime ::
  "'v list list \<Rightarrow> string list \<Rightarrow> string list \<Rightarrow> int option list \<Rightarrow> string \<Rightarrow> string
     \<Rightarrow> bool \<Rightarrow> world \<Rightarrow> exn + (('v list \<times> string \<times> string) list \<times> world)" where
  "plot_walltime series palette names xs file_name ext show w =
     (if length series = 0 then Inl ZeroDivisionError
      else if xs = [] then Inl IndexError
      else if \<not> fits xs (zip series (zip palette names)) then Inl ValueError
      else Inr (zip series (zip palette names),
                if show then w\<lparr>shown := shown w + 1\<rparr>
                else save file_name ext w))"

definition plot_speedup ::
  "'v list list \<Rightarrow> string list \<Rightarrow> string list \<Rightarrow> int option list \<Rightarrow> string \<Rightarrow> string
     \<Rightarrow> bool \<Rightarrow> world \<Rightarrow> exn + (('v list \<times> string \<times> string) list \<times> world)" where
  "plot_speedup series palette names xs file_name ext show w =
     (if \<not> fits xs (zip series (zip palette names)) then Inl ValueError
      else Inr (zip series (zip palette names),
                if show then w\<lparr>shown := shown w + 1\<rparr>
                else save file_name ext w))"

definition plot_efficiency ::
  "'v list list \<Rightarrow> string list \<Rightarrow> string list \<Rightarrow> int option list \<Rightarrow> string \<Rightarrow> string
     \<Rightarrow> bool \<Rightarrow> world \<Rightarrow> exn + (('v list \<times> string \<times> string) list \<times> world)" where
  "plot_efficiency series palette names xs file_name ext show w =
     (if \<not> fits xs (zip series (zip palette names)) then Inl ValueError
      else Inr (zip series (zip palette names),
                if show then w\<lparr>shown := shown w + 1\<rparr>
                else save file_name ext w))"

subsection \<open>The main block of the scaling script\<close>

record charts =
  walltime_chart :: "(cell list \<times> string \<times> string) list"
  efficiency_chart :: "(metric list \<times> string \<times> string) list"
  speedup_chart :: "(metric list \<times> string \<times> string) list option"

text \<open>
  Lines 363--523, from the table that \<^verbatim>\<open>read_dataframe_from_excel\<close> returned. The
  result is the exception that ended the run or the charts drawn, and the world the run
  leaves behind.
\<close>

definition scaling_main ::
  "scaling_args \<Rightarrow> scaling_row list \<Rightarrow> world \<Rightarrow> (exn + charts) \<times> world" where
  "scaling_main args table w0 =
     (let w1 = use_style args w0;
          show_instead_of_save = window args;
          walltime_file = add_optional_prefix ''walltime'' (file_prefix_arg args) ''-'';
          speedup_file = add_optional_prefix ''speedup'' (file_prefix_arg args) ''-'';
          efficiency_file =
            add_optional_prefix (if weak args then ''weak-efficiency'' else ''strong-efficiency'')
              (file_prefix_arg args) ''-'';
          results = groupby_mean (filter_results args table)
      in case calculate_all (group_dataframes results) of
           Inl e \<Rightarrow> (Inl e, w1)
         | Inr frames \<Rightarrow>
             (let a = assemble frames
              in case plot_walltime (walltimes a) colours (series_names a) (x_axis results)
                        walltime_file ''png'' show_instead_of_save w1 of
                   Inl e \<Rightarrow> (Inl e, w1)
                 | Inr (bars, w2) \<Rightarrow>
                     (case plot_efficiency
                             (if weak args then weak_efficiencies a else strong_efficiencies a)
                             colours (series_names a) (x_axis results) efficiency_file ''png''
                             show_instead_of_save w2 of
                        Inl e \<Rightarrow> (Inl e, w2)
                      | Inr (lines, w3) \<Rightarrow>
                          if \<not> weak args
                          then (case plot_speedup (speedups a) colours (series_names a)
                                       (x_axis results) speedup_file ''png''
                                       show_instead_of_save w3 of
                                  Inl e \<Rightarrow> (Inl e, w3)
                                | Inr (curves, w4) \<Rightarrow>
                                    (Inr \<lparr>walltime_chart = bars, efficiency_chart = lines,
                                          speedup_chart = Some curves\<rparr>, w4))
                          else (Inr \<lparr>walltime_chart = bars, efficiency_chart = lines,
                                     speedup_chart = None\<rparr>, w3))))"

subsection \<open>The categorical script\<close>

text \<open>
  The names bound at module level when \<^verbatim>\<open>scaling_plot\<close> is imported: its imports
  and its functions. The main block does not run on import.
\<close>

definition scaling_plot_names :: "string list" where
  "scaling_plot_names =
     [''os'', ''sys'', ''pd'', ''np'', ''matplotlib'', ''plt'', ''argparse'',
      ''get_args'', ''save'', ''read_dataframe_from_excel'',
      ''calculate_speedup_and_efficiency'', ''plot_walltime'', ''plot_speedup'',
      ''plot_efficiency'', ''add_optional_prefix'']"

text \<open>\<^verbatim>\<open>from module import (names)\<close>: a name the module does not bind raises ImportError.\<close>

definition import_from :: "string list \<Rightarrow> string list \<Rightarrow> exn + unit" where
  "import_from module_names wanted =
     (if list_all (\<lambda>n. n \<in> set module_names) wanted then Inr () else Inl ImportError)"

definition categorical_imports :: "string list" where
  "categorical_imports =
     [''COLOURS'', ''add_optional_prefix'', ''add_sorted_legend'',
      ''read_dataframe_from_excel'', ''save'']"

text \<open>
  \<^verbatim>\<open>plot_bar\<close> (lines 103--151): \<^verbatim>\<open>x_ind[0]\<close> raises on an empty series; the loop
  runs over \<^verbatim>\<open>zip(x_ind, series, colours, series_names)\<close>.
\<close>

definition plot_bar ::
  "'v list \<Rightarrow> string list \<Rightarrow> string list \<Rightarrow> string \<Rightarrow> string \<Rightarrow> bool
     \<Rightarrow> world \<Rightarrow> exn + ((nat \<times> 'v \<times> string \<times> string) list \<times> world)" where
  "plot_bar series palette names file_name ext show w =
     (if series = [] then Inl IndexError
      else Inr (zip [0 ..< length series] (zip series (zip palette names)),
                if show then w\<lparr>shown := shown w + 1\<rparr>
                else save file_name ext w))"

text \<open>Lines 202--206: the reference walltime and the speedup column.\<close>

definition categorical_speedup ::
  "categorical_args \<Rightarrow> categorical_row list \<Rightarrow> exn + metric list" where
  "categorical_speedup args results =
     (case to_float (map walltime
                       (filter (\<lambda>r. category r = Some (baseline_category args)) results)) of
        Inl e \<Rightarrow> Inl e
      | Inr t1 \<Rightarrow> Inr (map (\<lambda>r. np_div t1 (walltime r)) results))"

record categorical_charts =
  walltime_bars :: "(nat \<times> cell \<times> string \<times> string) list"
  speedup_bars :: "(nat \<times> metric \<times> string \<times> string) list"

text \<open>
  The main block (lines 154--243). \<^verbatim>\<open>COLOURS\<close> is defined nowhere in the repository
  and is a parameter here. A category label is a string.
\<close>

definition categorical_main ::
  "string list \<Rightarrow> categorical_args \<Rightarrow> categorical_row list \<Rightarrow> world
     \<Rightarrow> (exn + categorical_charts) \<times> world" where
  "categorical_main COLOURS args table w0 =
     (case use_style_categorical args w0 of
        Inl e \<Rightarrow> (Inl e, w0)
      | Inr w1 \<Rightarrow>
          (let show_instead_of_save = window args;
               walltime_file = add_optional_prefix ''walltime'' (file_prefix_arg args) ''-'';
               speedup_file = add_optional_prefix ''speedup'' (file_prefix_arg args) ''-'';
               results = groupby_mean_categorical (filter_results_categorical args table)
           in case categorical_speedup args results of
                Inl e \<Rightarrow> (Inl e, w1)
              | Inr speedup_column \<Rightarrow>
                  (let categories = [c. Some c \<leftarrow> map category results]
                   in case plot_bar (map walltime results) COLOURS categories walltime_file
                             (file_extension args) show_instead_of_save w1 of
                        Inl e \<Rightarrow> (Inl e, w1)
                      | Inr (bars, w2) \<Rightarrow>
                          (case plot_bar speedup_column COLOURS categories speedup_file
                                  (file_extension args) show_instead_of_save w2 of
                             Inl e \<Rightarrow> (Inl e, w2)
                           | Inr (bars', w3) \<Rightarrow>
                               (Inr \<lparr>walltime_bars = bars, speedup_bars = bars'\<rparr>, w3)))))"

text \<open>Running the script: the import at lines 10--16 comes first.\<close>

definition categorical_script ::
  "string list \<Rightarrow> categorical_args \<Rightarrow> categorical_row list \<Rightarrow> world
     \<Rightarrow> (exn + categorical_charts) \<times> world" where
  "categorical_script COLOURS args table w0 =
     (case import_from scaling_plot_names categorical_imports of
        Inl e \<Rightarrow> (Inl e, w0)
      | Inr u \<Rightarrow> categorical_main COLOURS args table w0)"

subsection \<open>Notions used to state properties\<close>

text \<open>Python's \<^verbatim>\<open><=\<close> on floats: false when an operand is not a finite number.\<close>

fun le_cell :: "cell \<Rightarrow> cell \<Rightarrow> bool" where
  "le_cell (Some a) (Some b) = (a \<le> b)"
| "le_cell _ _ = False"

fun le_metric :: "metric \<Rightarrow> metric \<Rightarrow> bool" where
  "le_metric (Finite a) (Finite b) = (a \<le> b)"
| "le_metric _ _ = False"

text \<open>
  Truthiness of a numeric cell, as the specification and the help text of
  \<^verbatim>\<open>--filter_column\<close> word the filter ("cast to a boolean value"): Python's
  \<^verbatim>\<open>bool(x)\<close> is false for zero only; NaN is true.
\<close>

definition spec_truthy :: "cell \<Rightarrow> bool" where
  "spec_truthy c = (c \<noteq> Some 0)"

text \<open>The directories after \<^verbatim>\<open>save\<close> has made sure that its directory exists.\<close>

definition with_directory :: "string \<Rightarrow> string list \<Rightarrow> string list" where
  "with_directory d ds = (if d \<in> set ds then ds else makedirs d ds)"

text \<open>
  The last step of each plot function of the scaling script, which always passes the
  extension \<^verbatim>\<open>'png'\<close>: the figure is shown, or saved.
\<close>

definition finish :: "bool \<Rightarrow> string \<Rightarrow> world \<Rightarrow> world" where
  "finish show file_name w =
     (if show then w\<lparr>shown := shown w + 1\<rparr> else save file_name ''png'' w)"

subsection \<open>Example inputs\<close>

definition row :: "string \<Rightarrow> int \<Rightarrow> real \<Rightarrow> scaling_row" where
  "row g n t = \<lparr>walltime = Some t, filter_value = None, group_col = Some g,
                compute_elements = Some n\<rparr>"

definition category_row :: "string \<Rightarrow> real \<Rightarrow> categorical_row" where
  "category_row c t = \<lparr>walltime = Some t, filter_value = None, category = Some c\<rparr>"

text \<open>The group of the specification's first scenario.\<close>

definition scenario :: "scaling_row list" where
  "scenario = [row ''A'' 1 100, row ''A'' 2 60, row ''A'' 4 20]"

text \<open>
  Tables with repeated keys, with two groups, with two groups of different sets of
  compute elements, and with ten groups.
\<close>

definition duplicates :: "scaling_row list" where
  "duplicates = [row ''A'' 2 10, row ''A'' 2 20, row ''A'' 1 7]"

definition category_duplicates :: "categorical_row list" where
  "category_duplicates = [category_row ''v2'' 25, category_row ''v1'' 50, category_row ''v1'' 30]"


definition ragged_groups :: "scaling_row list" where
  "ragged_groups = [row ''A'' 1 100, row ''A'' 2 60, row ''A'' 4 20, row ''B'' 1 90, row ''B'' 2 50]"


text \<open>Command lines: the defaults, and some options set.\<close>

definition example_args :: scaling_args where
  "example_args = \<lparr>style = [], filter_column = [], title_prefix = None,
                    file_prefix_arg = None, window = False, weak = False\<rparr>"

definition example_categorical_args :: categorical_args where
  "example_categorical_args =
     \<lparr>style = [], filter_column = [], title_prefix = None, file_prefix_arg = None,
      window = False, baseline_category = ''baseline'', file_extension = ''png'',
      tight = False\<rparr>"

definition window_args :: scaling_args where
  "window_args = example_args\<lparr>window := True\<rparr>"

definition prefix_args :: scaling_args where
  "prefix_args = example_args\<lparr>file_prefix_arg := Some ''run'', weak := True\<rparr>"

definition path_args :: scaling_args where
  "path_args = example_args\<lparr>file_prefix_arg := Some ''out/run''\<rparr>"

text \<open>A world in which matplotlib knows one style and nothing has been saved or shown.\<close>

definition example_world :: world where
  "example_world = \<lparr>styles = [''ggplot''], style_in_use = ''default'', dirs = [''.''],
                     saved = [], shown = 0, printed = []\<rparr>"

section \<open>Properties\<close>

subsection \<open>The metric engine\<close>

lemma to_float_single: "to_float xs = Inr x \<longleftrightarrow> xs = [x]"
  by (cases xs rule: to_float.cases) auto

lemma to_float_error: "length xs \<noteq> 1 \<Longrightarrow> to_float xs = Inl TypeError"
  by (cases xs rule: to_float.cases) auto

lemma calculate_with_reference:
  assumes "filter (\<lambda>r. compute_elements r = Some 1) rdf = [ref]"
  shows "calculate_speedup_and_efficiency rdf =
           Inr (map (\<lambda>r. np_div (walltime ref) (walltime r)) rdf,
                map (\<lambda>r. np_div (walltime ref) (np_mul (walltime r) (compute_elements r))) rdf,
                map (\<lambda>r. np_div (walltime ref) (walltime r)) rdf)"
  using assms by (simp add: calculate_speedup_and_efficiency_def)

lemma scenario_reference:
  "filter (\<lambda>r. compute_elements r = Some 1) scenario = [row ''A'' 1 100]"
  by (simp add: scenario_def row_def)

lemma scenario_positive: "\<forall>r \<in> set scenario. gt0 (walltime r)"
  by (simp add: scenario_def row_def)

text \<open>
  Claim C1. When exactly one row \<open>ref\<close> of a group has \<open>compute_elements == 1\<close>, the
  function returns three series as long as the group, and on every row \<open>n\<close>, with
  \<open>t1\<close> the walltime of \<open>ref\<close>: the speedup is \<open>t1 / walltime(n)\<close>, the strong
  efficiency is \<open>t1 / (walltime(n) * compute_elements(n))\<close>, the weak efficiency is
  \<open>t1 / walltime(n)\<close>, and so equals the speedup.
\<close>

theorem speedup_and_efficiency_formulas:
  assumes "filter (\<lambda>r. compute_elements r = Some 1) rdf = [ref]"
  shows "\<exists>sp se we.
           calculate_speedup_and_efficiency rdf = Inr (sp, se, we)
         \<and> length sp = length rdf \<and> length se = length rdf \<and> length we = length rdf
         \<and> (\<forall>n < length rdf.
               sp ! n = np_div (walltime ref) (walltime (rdf ! n))
             \<and> se ! n =
                 np_div (walltime ref) (np_mul (walltime (rdf ! n)) (compute_elements (rdf ! n)))
             \<and> we ! n = np_div (walltime ref) (walltime (rdf ! n))
             \<and> we ! n = sp ! n)"
  using calculate_with_reference [OF assms] by simp

theorem speedup_and_efficiency_formulas_witness:
  "\<exists>sp se we.
     calculate_speedup_and_efficiency scenario = Inr (sp, se, we)
   \<and> sp ! 2 = Finite 5 \<and> se ! 2 = Finite (5 / 4) \<and> we ! 2 = sp ! 2"
  using speedup_and_efficiency_formulas [OF scenario_reference]
  by (auto simp: scenario_def row_def)

text \<open>
  Claim C8. In a group with a unique reference row and positive walltimes, the speedup
  and the strong efficiency computed at a row with \<open>compute_elements == 1\<close> are both
  exactly 1.
\<close>

theorem reference_row_is_one:
  assumes ref: "filter (\<lambda>r. compute_elements r = Some 1) rdf = [ref]"
      and pos: "\<forall>r \<in> set rdf. gt0 (walltime r)"
      and n: "n < length rdf" "compute_elements (rdf ! n) = Some 1"
  shows "\<exists>sp se we.
           calculate_speedup_and_efficiency rdf = Inr (sp, se, we)
         \<and> sp ! n = Finite 1 \<and> se ! n = Finite 1"
proof -
  have "rdf ! n \<in> set (filter (\<lambda>r. compute_elements r = Some 1) rdf)"
    using n by simp
  then have eq: "rdf ! n = ref" using ref by simp
  have "gt0 (walltime ref)" using pos n eq by (metis nth_mem)
  then obtain t where t: "walltime ref = Some t" "0 < t"
    by (cases "walltime ref") auto
  show ?thesis
    using calculate_with_reference [OF ref] n eq t by simp
qed

theorem reference_row_is_one_witness:
  "\<exists>sp se we. calculate_speedup_and_efficiency scenario = Inr (sp, se, we)
      \<and> sp ! 0 = Finite 1 \<and> se ! 0 = Finite 1"
proof -
  have n: "0 < length scenario" "compute_elements (scenario ! 0) = Some 1"
    by (simp_all add: scenario_def row_def)
  show ?thesis
    using reference_row_is_one [OF scenario_reference scenario_positive n] by blast
qed

text \<open>
  Claim C9. In a group with positive walltimes for which the metrics are computed, if
  the walltime does not increase as \<open>compute_elements\<close> increases (in the order the
  group is sorted by), the speedup does not decrease: for rows \<open>i\<close> and \<open>j\<close> with
  \<open>compute_elements(i) \<le> compute_elements(j)\<close>, \<open>speedup(i) \<le> speedup(j)\<close>.
\<close>

theorem speedup_monotone:
  assumes calc: "calculate_speedup_and_efficiency rdf = Inr (sp, se, we)"
      and pos: "\<forall>r \<in> set rdf. gt0 (walltime r)"
      and noninc: "\<forall>r \<in> set rdf. \<forall>r' \<in> set rdf.
                     compute_elements_key (compute_elements r)
                       \<le> compute_elements_key (compute_elements r')
                       \<longrightarrow> le_cell (walltime r') (walltime r)"
      and ij: "i < length rdf" "j < length rdf"
              "compute_elements_key (compute_elements (rdf ! i))
                 \<le> compute_elements_key (compute_elements (rdf ! j))"
  shows "le_metric (sp ! i) (sp ! j)"
proof -
  from calc obtain t1 where
    t1: "to_float (map walltime (filter (\<lambda>r. compute_elements r = Some 1) rdf)) = Inr t1"
    and sp: "sp = map (\<lambda>r. np_div t1 (walltime r)) rdf"
    by (auto simp: calculate_speedup_and_efficiency_def split: sum.splits)
  from t1 have "map walltime (filter (\<lambda>r. compute_elements r = Some 1) rdf) = [t1]"
    by (simp add: to_float_single)
  then obtain ref where f: "filter (\<lambda>r. compute_elements r = Some 1) rdf = [ref]"
    and w: "walltime ref = t1"
    by (auto simp: map_eq_Cons_conv)
  have "ref \<in> set (filter (\<lambda>r. compute_elements r = Some 1) rdf)"
    by (simp add: f)
  then have "ref \<in> set rdf" by simp
  with pos w obtain t where t: "t1 = Some t" "0 < t"
    by (cases t1) force+
  have mem: "rdf ! i \<in> set rdf" "rdf ! j \<in> set rdf" using ij by simp_all
  from pos mem obtain a b where ab: "walltime (rdf ! i) = Some a" "0 < a"
      "walltime (rdf ! j) = Some b" "0 < b"
    by (metis gt0.elims(2))
  from noninc mem ij(3) have "le_cell (walltime (rdf ! j)) (walltime (rdf ! i))" by blast
  with ab have "b \<le> a" by simp
  then have "t / a \<le> t / b" using t ab by (simp add: frac_le)
  then show ?thesis using sp ij ab t by simp
qed

theorem speedup_monotone_witness:
  "\<exists>sp se we. calculate_speedup_and_efficiency scenario = Inr (sp, se, we)
      \<and> le_metric (sp ! 0) (sp ! 2) \<and> sp ! 0 = Finite 1 \<and> sp ! 2 = Finite 5"
proof -
  obtain sp se we where c: "calculate_speedup_and_efficiency scenario = Inr (sp, se, we)"
    using calculate_with_reference [OF scenario_reference] by blast
  have noninc: "\<forall>r \<in> set scenario. \<forall>r' \<in> set scenario.
      compute_elements_key (compute_elements r) \<le> compute_elements_key (compute_elements r')
        \<longrightarrow> le_cell (walltime r') (walltime r)"
    by (simp add: scenario_def row_def)
  have ij: "0 < length scenario" "2 < length scenario"
    "compute_elements_key (compute_elements (scenario ! 0))
       \<le> compute_elements_key (compute_elements (scenario ! 2))"
    by (simp_all add: scenario_def row_def)
  have "le_metric (sp ! 0) (sp ! 2)"
    using speedup_monotone [OF c scenario_positive noninc ij] .
  moreover have "sp ! 0 = Finite 1" "sp ! 2 = Finite 5"
    using c calculate_with_reference [OF scenario_reference]
    by (simp_all add: scenario_def row_def)
  ultimately show ?thesis using c by blast
qed

subsection \<open>A missing or ambiguous reference row\<close>

lemma calculate_error_is_TypeError:
  "calculate_speedup_and_efficiency rdf = Inl e \<Longrightarrow> e = TypeError"
  by (cases "map walltime (filter (\<lambda>r. compute_elements r = Some 1) rdf)" rule: to_float.cases)
     (auto simp: calculate_speedup_and_efficiency_def Let_def)

lemma calculate_without_reference:
  "length (filter (\<lambda>r. compute_elements r = Some 1) rdf) \<noteq> 1
     \<Longrightarrow> calculate_speedup_and_efficiency rdf = Inl TypeError"
  by (simp add: calculate_speedup_and_efficiency_def to_float_error)

lemma calculate_all_error:
  "(name, df) \<in> set frames
     \<Longrightarrow> length (filter (\<lambda>r. compute_elements r = Some 1) df) \<noteq> 1
     \<Longrightarrow> calculate_all frames = Inl TypeError"
proof (induction frames)
  case Nil
  then show ?case by simp
next
  case (Cons f frames)
  obtain name' data where f: "f = (name', data)" by (cases f)
  show ?case
  proof (cases "calculate_speedup_and_efficiency data")
    case (Inl e)
    then show ?thesis using f calculate_error_is_TypeError by simp
  next
    case (Inr m)
    then have "(name, df) \<noteq> (name', data)"
      using Cons.prems(2) calculate_without_reference by auto
    then have "(name, df) \<in> set frames"
      using Cons.prems(1) f by auto
    then have "calculate_all frames = Inl TypeError"
      using Cons.IH Cons.prems(2) by blast
    then show ?thesis using f Inr by (simp split: prod.splits)
  qed
qed

lemma set_unique [simp]: "set (unique xs) = set xs"
  by (simp add: unique_def)

lemma set_group_keys:
  "set (group_keys results) =
     {(g, n). \<exists>r \<in> set results. group_col r = Some g \<and> compute_elements r = Some n}"
  by (auto simp: group_keys_def split: option.splits) 

lemma groupby_mean_row:
  "a \<in> set (groupby_mean results) \<Longrightarrow>
     \<exists>g n. group_col a = Some g \<and> compute_elements a = Some n \<and> (g, n) \<in> set (group_keys results)"
  by (auto simp: groupby_mean_def Let_def)

lemma groupby_mean_has_key:
  "(g, n) \<in> set (group_keys results) \<Longrightarrow>
     \<exists>a \<in> set (groupby_mean results). group_col a = Some g \<and> compute_elements a = Some n"
  by (force simp: groupby_mean_def Let_def)

lemma filter_sort_frame:
  "filter P (sort_frame df) = sort_frame (filter P df)"
  by (simp add: sort_frame_def filter_sort)

lemma sort_frame_Nil [simp]: "sort_frame df = [] \<longleftrightarrow> df = []"
  by (metis sort_frame_def length_sort length_0_conv)

lemma group_dataframes_member:
  "a \<in> set results \<Longrightarrow> group_col a = Some g \<Longrightarrow>
     (g, sort_frame (filter (\<lambda>r. group_col r = Some g) results)) \<in> set (group_dataframes results)"
  by (force simp: group_dataframes_def filter_empty_conv split: option.splits)

lemma use_style_frame:
  "saved (use_style args w) = saved w" "shown (use_style args w) = shown w"
  "printed (use_style args w) = printed w" "dirs (use_style args w) = dirs w"
  by (auto simp: use_style_def style_use_def)

lemma use_style_categorical_frame:
  "\<exists>w'. use_style_categorical args w = Inr w' \<and> saved w' = saved w \<and> shown w' = shown w
        \<and> dirs w' = dirs w"
  by (auto simp: use_style_categorical_def style_use_def)

lemma scaling_main_without_reference:
  assumes r: "r \<in> set (filter_results args table)" "group_col r = Some g"
             "compute_elements r = Some n"
      and none: "\<forall>r' \<in> set (filter_results args table).
                   group_col r' = Some g \<longrightarrow> compute_elements r' \<noteq> Some 1"
  shows "scaling_main args table w = (Inl TypeError, use_style args w)"
proof -
  let ?R = "filter_results args table"
  let ?A = "groupby_mean ?R"
  let ?df = "sort_frame (filter (\<lambda>a. group_col a = Some g) ?A)"
  have "(g, n) \<in> set (group_keys ?R)"
    using r by (auto simp: set_group_keys)
  then obtain a where a: "a \<in> set ?A" "group_col a = Some g"
    using groupby_mean_has_key by blast
  then have frame: "(g, ?df) \<in> set (group_dataframes ?A)"
    by (rule group_dataframes_member)
  have "compute_elements a' \<noteq> Some 1" if "a' \<in> set ?A" "group_col a' = Some g" for a'
  proof
    assume one: "compute_elements a' = Some 1"
    from groupby_mean_row [OF that(1)] that(2) one have "(g, 1) \<in> set (group_keys ?R)"
      by auto
    then show False using none by (auto simp: set_group_keys)
  qed
  then have "filter (\<lambda>r. compute_elements r = Some 1) ?df = []"
    by (auto simp: filter_sort_frame filter_empty_conv)
  then have "length (filter (\<lambda>r. compute_elements r = Some 1) ?df) \<noteq> 1" by simp
  then have "calculate_all (group_dataframes ?A) = Inl TypeError"
    using frame by (rule calculate_all_error [rotated])
  then show ?thesis by (simp add: scaling_main_def Let_def)
qed

lemma categorical_speedup_without_baseline:
  "length (filter (\<lambda>r. category r = Some (baseline_category args)) results) \<noteq> 1
     \<Longrightarrow> categorical_speedup args results = Inl TypeError"
  by (simp add: categorical_speedup_def to_float_error)

lemma set_category_keys:
  "set (category_keys results) = {c. \<exists>r \<in> set results. category r = Some c}"
  by (auto simp: category_keys_def split: option.splits)

lemma groupby_mean_categorical_row:
  "a \<in> set (groupby_mean_categorical results) \<Longrightarrow>
     \<exists>c. category a = Some c \<and> (\<exists>r \<in> set results. category r = Some c)"
  by (auto simp: groupby_mean_categorical_def set_category_keys Let_def)

lemma categorical_main_without_baseline:
  assumes "\<forall>r \<in> set (filter_results_categorical args table).
             category r \<noteq> Some (baseline_category args)"
  shows "\<exists>w'. categorical_main COLOURS args table w = (Inl TypeError, w')
            \<and> saved w' = saved w \<and> shown w' = shown w"
proof -
  let ?A = "groupby_mean_categorical (filter_results_categorical args table)"
  have "filter (\<lambda>r. category r = Some (baseline_category args)) ?A = []"
    using assms groupby_mean_categorical_row by (fastforce simp: filter_empty_conv)
  then have "categorical_speedup args ?A = Inl TypeError"
    by (simp add: categorical_speedup_without_baseline)
  moreover obtain w1 where "use_style_categorical args w = Inr w1" "saved w1 = saved w"
      "shown w1 = shown w"
    using use_style_categorical_frame by blast
  ultimately show ?thesis by (simp add: categorical_main_def Let_def)
qed

text \<open>
  Claim C2, as amended. When no row of a group has \<open>compute_elements == 1\<close>, or more
  than one has, \<^verbatim>\<open>calculate_speedup_and_efficiency\<close> raises TypeError (the conversion
  \<^verbatim>\<open>float(series)\<close> of a series that does not hold exactly one value); no reference
  row is picked. A run of the scaling script whose filtered table has a group without
  such a row ends with that TypeError, and no figure is saved or shown. The same holds
  for the reference walltime of the categorical table and the main block of the
  categorical script. No path raises an exception named DataError.
\<close>

theorem missing_reference_raises_TypeError:
  "(length (filter (\<lambda>r. compute_elements r = Some 1) rdf) \<noteq> 1
      \<longrightarrow> calculate_speedup_and_efficiency rdf = Inl TypeError)
   \<and> (r \<in> set (filter_results args table) \<and> group_col r = Some g
        \<and> compute_elements r = Some n
        \<and> (\<forall>r' \<in> set (filter_results args table).
              group_col r' = Some g \<longrightarrow> compute_elements r' \<noteq> Some 1)
      \<longrightarrow> fst (scaling_main args table w) = Inl TypeError
          \<and> saved (snd (scaling_main args table w)) = saved w
          \<and> shown (snd (scaling_main args table w)) = shown w)
   \<and> (length (filter (\<lambda>r. category r = Some (baseline_category cargs)) results) \<noteq> 1
      \<longrightarrow> categorical_speedup cargs results = Inl TypeError)
   \<and> ((\<forall>r \<in> set (filter_results_categorical cargs ctable).
           category r \<noteq> Some (baseline_category cargs))
      \<longrightarrow> fst (categorical_main COLOURS cargs ctable w) = Inl TypeError
          \<and> saved (snd (categorical_main COLOURS cargs ctable w)) = saved w
          \<and> shown (snd (categorical_main COLOURS cargs ctable w)) = shown w)"
proof (intro conjI impI)
  assume "length (filter (\<lambda>r. compute_elements r = Some 1) rdf) \<noteq> 1"
  then show "calculate_speedup_and_efficiency rdf = Inl TypeError"
    by (rule calculate_without_reference)
next
  assume "length (filter (\<lambda>r. category r = Some (baseline_category cargs)) results) \<noteq> 1"
  then show "categorical_speedup cargs results = Inl TypeError"
    by (rule categorical_speedup_without_baseline)
next
  assume h: "r \<in> set (filter_results args table) \<and> group_col r = Some g
        \<and> compute_elements r = Some n
        \<and> (\<forall>r' \<in> set (filter_results args table).
              group_col r' = Some g \<longrightarrow> compute_elements r' \<noteq> Some 1)"
  then have m: "scaling_main args table w = (Inl TypeError, use_style args w)"
    using scaling_main_without_reference by blast
  show "fst (scaling_main args table w) = Inl TypeError"
       "saved (snd (scaling_main args table w)) = saved w"
       "shown (snd (scaling_main args table w)) = shown w"
    by (simp_all add: m use_style_frame)
next
  assume "\<forall>r \<in> set (filter_results_categorical cargs ctable).
           category r \<noteq> Some (baseline_category cargs)"
  from categorical_main_without_baseline [OF this, of COLOURS w]
  obtain w' where w': "categorical_main COLOURS cargs ctable w = (Inl TypeError, w')"
     "saved w' = saved w" "shown w' = shown w" by blast
  show "fst (categorical_main COLOURS cargs ctable w) = Inl TypeError"
       "saved (snd (categorical_main COLOURS cargs ctable w)) = saved w"
       "shown (snd (categorical_main COLOURS cargs ctable w)) = shown w"
    by (simp_all add: w')
qed

theorem missing_reference_raises_TypeError_witness:
  "calculate_speedup_and_efficiency [row ''A'' 2 60, row ''A'' 4 20] = Inl TypeError
   \<and> fst (scaling_main example_args [row ''A'' 2 60, row ''A'' 4 20] example_world)
       = Inl TypeError
   \<and> saved (snd (scaling_main example_args [row ''A'' 2 60, row ''A'' 4 20] example_world)) = []
   \<and> shown (snd (scaling_main example_args [row ''A'' 2 60, row ''A'' 4 20] example_world)) = 0
   \<and> categorical_speedup example_categorical_args [category_row ''v2'' 25] = Inl TypeError
   \<and> fst (categorical_main [] example_categorical_args [category_row ''v2'' 25] example_world)
       = Inl TypeError
   \<and> saved (snd (categorical_main [] example_categorical_args [category_row ''v2'' 25]
                   example_world)) = []
   \<and> shown (snd (categorical_main [] example_categorical_args [category_row ''v2'' 25]
                   example_world)) = 0"
proof -
  have 1: "length (filter (\<lambda>r. compute_elements r = Some 1) [row ''A'' 2 60, row ''A'' 4 20])
             \<noteq> 1"
    by (simp add: row_def)
  have 2: "row ''A'' 2 60 \<in> set (filter_results example_args [row ''A'' 2 60, row ''A'' 4 20])
        \<and> group_col (row ''A'' 2 60) = Some ''A''
        \<and> compute_elements (row ''A'' 2 60) = Some 2
        \<and> (\<forall>r' \<in> set (filter_results example_args [row ''A'' 2 60, row ''A'' 4 20]).
              group_col r' = Some ''A'' \<longrightarrow> compute_elements r' \<noteq> Some 1)"
    by (simp add: filter_results_def example_args_def row_def)
  have 3: "length (filter (\<lambda>r. category r = Some (baseline_category example_categorical_args))
                     [category_row ''v2'' 25]) \<noteq> 1"
    by (simp add: category_row_def example_categorical_args_def)
  have 4: "\<forall>r \<in> set (filter_results_categorical example_categorical_args
                         [category_row ''v2'' 25]).
             category r \<noteq> Some (baseline_category example_categorical_args)"
    by (simp add: filter_results_categorical_def category_row_def example_categorical_args_def)
  show ?thesis
    using missing_reference_raises_TypeError
            [of "[row ''A'' 2 60, row ''A'' 4 20]" "row ''A'' 2 60" example_args
                "[row ''A'' 2 60, row ''A'' 4 20]" "''A''" 2 example_world
                example_categorical_args "[category_row ''v2'' 25]"
                "[category_row ''v2'' 25]" "[]"]
          1 2 3 4
    by (simp add: example_world_def)
qed

text \<open>
  Claim C2 as stated fails: on a group without a reference row, and on a group with two,
  the exception is TypeError and not DataError.
\<close>

theorem missing_reference_is_not_DataError:
  "calculate_speedup_and_efficiency [row ''A'' 2 60, row ''A'' 4 20] = Inl ''TypeError''
   \<and> calculate_speedup_and_efficiency [row ''A'' 2 60, row ''A'' 4 20] \<noteq> Inl ''DataError''
   \<and> fst (scaling_main example_args [row ''A'' 2 60, row ''A'' 4 20] example_world)
       \<noteq> Inl ''DataError''
   \<and> calculate_speedup_and_efficiency [row ''A'' 1 60, row ''A'' 1 20] = Inl ''TypeError''
   \<and> calculate_speedup_and_efficiency [row ''A'' 1 60, row ''A'' 1 20] \<noteq> Inl ''DataError''"
proof -
  have 1: "calculate_speedup_and_efficiency [row ''A'' 2 60, row ''A'' 4 20] = Inl TypeError"
    by (rule calculate_without_reference) (simp add: row_def)
  have 2: "calculate_speedup_and_efficiency [row ''A'' 1 60, row ''A'' 1 20] = Inl TypeError"
    by (rule calculate_without_reference) (simp add: row_def)
  have 3: "scaling_main example_args [row ''A'' 2 60, row ''A'' 4 20] example_world
             = (Inl TypeError, use_style example_args example_world)"
    by (rule scaling_main_without_reference [where r = "row ''A'' 2 60" and g = "''A''" and n = 2])
       (simp_all add: filter_results_def example_args_def row_def)
  show ?thesis by (simp add: 1 2 3)
qed

subsection \<open>Filtering\<close>

lemma filter_results_retains:
  "filter_results args table =
     filter (\<lambda>r. group_col r \<noteq> None \<and> gt0 (walltime r)
                \<and> (filter_column args = [] \<or> gt0 (filter_value r))) table"
  by (auto simp: filter_results_def Let_def intro: filter_cong)

lemma filter_results_categorical_retains:
  "filter_results_categorical args table =
     filter (\<lambda>r. category r \<noteq> None \<and> gt0 (walltime r)
                \<and> (filter_column args = [] \<or> gt0 (filter_value r))) table"
  by (auto simp: filter_results_categorical_def Let_def intro: filter_cong)

lemma gt0_truthy: "gt0 c \<Longrightarrow> spec_truthy c"
  by (cases c) (auto simp: spec_truthy_def)

text \<open>
  Claim C3 does not hold of the code. With a filter column named, a row with a group, a
  positive walltime and the filter value \<open>-1\<close> is dropped, though \<open>-1\<close> is truthy:
  the code keeps the rows whose filter value is greater than zero. Both scripts do so.
\<close>

theorem negative_filter_value_is_dropped:
  "spec_truthy (Some (- 1))
   \<and> filter_results (example_args\<lparr>filter_column := ''valid''\<rparr>)
        [(row ''A'' 1 10)\<lparr>filter_value := Some (- 1)\<rparr>] = []
   \<and> filter_results_categorical (example_categorical_args\<lparr>filter_column := ''valid''\<rparr>)
        [(category_row ''baseline'' 10)\<lparr>filter_value := Some (- 1)\<rparr>] = []"
  by (simp add: spec_truthy_def filter_results_def filter_results_categorical_def
        example_args_def example_categorical_args_def row_def category_row_def)

subsection \<open>An invalid style\<close>

lemma use_style_invalid:
  "style args \<notin> set (styles w) \<Longrightarrow> use_style args w = w"
  by (simp add: use_style_def style_use_def)

lemma use_style_categorical_invalid:
  "style args \<noteq> [] \<Longrightarrow> style args \<notin> set (styles w) \<Longrightarrow>
     use_style_categorical args w =
       Inr (w\<lparr>printed := printed w @
              [''Warning: '' @ [CHR 0x27] @ style args @ [CHR 0x27] @
               '' is not a valid matplotlib style. Using default style.'']\<rparr>)"
  by (simp add: use_style_categorical_def style_use_def)

text \<open>
  Claim C7 does not hold of the scaling script. Given a style matplotlib does not know,
  its handler is \<^verbatim>\<open>except: pass\<close>: the world is left as it was, the default style
  stays in use and nothing is printed. The categorical script prints the warning.
\<close>

theorem invalid_style_is_silent:
  "use_style (example_args\<lparr>style := ''no-such-style''\<rparr>) example_world = example_world
   \<and> printed (use_style (example_args\<lparr>style := ''no-such-style''\<rparr>) example_world) = []
   \<and> style_in_use (use_style (example_args\<lparr>style := ''no-such-style''\<rparr>) example_world)
        = ''default''
   \<and> use_style_categorical (example_categorical_args\<lparr>style := ''no-such-style''\<rparr>)
        example_world
      = Inr (example_world\<lparr>printed :=
          [''Warning: '' @ [CHR 0x27] @ ''no-such-style'' @ [CHR 0x27] @
           '' is not a valid matplotlib style. Using default style.'']\<rparr>)"
  by (simp add: use_style_def use_style_categorical_def style_use_def example_args_def
        example_categorical_args_def example_world_def)

subsection \<open>The import of the categorical script\<close>

text \<open>
  Claim C10. Whatever the arguments, the table and the palette, a run of the
  categorical script ends with ImportError at its import of \<^verbatim>\<open>scaling_plot\<close> and
  leaves the world as it was: among the names it imports, \<^verbatim>\<open>COLOURS\<close> and
  \<^verbatim>\<open>add_sorted_legend\<close> are not bound at the module level of \<^verbatim>\<open>scaling_plot.py\<close>.
\<close>

theorem categorical_script_fails_at_import:
  "categorical_script COLOURS args table w = (Inl ImportError, w)
   \<and> ''COLOURS'' \<in> set categorical_imports \<and> ''COLOURS'' \<notin> set scaling_plot_names
   \<and> ''add_sorted_legend'' \<in> set categorical_imports
   \<and> ''add_sorted_legend'' \<notin> set scaling_plot_names"
  by (simp add: categorical_script_def import_from_def categorical_imports_def
        scaling_plot_names_def)

subsection \<open>Aggregation\<close>

lemma filter_keyed_map:
  assumes "distinct ks" and "\<And>k k'. P k (mk k') \<longleftrightarrow> k = k'"
  shows "filter (P k) (map mk ks) = (if k \<in> set ks then [mk k] else [])"
  using assms(1) by (induction ks) (auto simp: assms(2))

lemma mean_of_present:
  "ws \<noteq> [] \<Longrightarrow> mean (map Some ws) = Some (sum_list ws / real (length ws))"
proof -
  have "present (map Some ws) = ws"
    by (induction ws) (simp_all add: present_def)
  then show "ws \<noteq> [] \<Longrightarrow> ?thesis" by (simp add: mean_def)
qed

lemma positive_cells:
  "\<forall>r \<in> set rs. gt0 (walltime r) \<Longrightarrow> \<exists>ws. map walltime rs = map Some ws"
proof (induction rs)
  case Nil
  then show ?case by simp
next
  case (Cons r rs)
  then obtain ws where "map walltime rs = map Some ws" by auto
  moreover obtain t where "walltime r = Some t"
    using Cons.prems by (cases "walltime r") auto
  ultimately have "map walltime (r # rs) = map Some (t # ws)" by simp
  then show ?case by blast
qed

lemma filter_results_positive:
  "r \<in> set (filter_results args table) \<Longrightarrow> gt0 (walltime r)"
  by (simp add: filter_results_retains)

lemma filter_results_categorical_positive:
  "r \<in> set (filter_results_categorical args table) \<Longrightarrow> gt0 (walltime r)"
  by (simp add: filter_results_categorical_retains)

lemma groupby_mean_key:
  "filter (\<lambda>a. group_col a = Some g \<and> compute_elements a = Some n) (groupby_mean results) =
     (if (g, n) \<in> set (group_keys results)
      then [\<lparr>walltime = mean (map walltime
                (filter (\<lambda>r. group_col r = Some g \<and> compute_elements r = Some n) results)),
             filter_value = mean (map filter_value
                (filter (\<lambda>r. group_col r = Some g \<and> compute_elements r = Some n) results)),
             group_col = Some g, compute_elements = Some n\<rparr>]
      else [])"
proof -
  have d: "distinct (group_keys results)" by (simp add: group_keys_def)
  have "filter ((\<lambda>k a. group_col a = Some (fst k) \<and> compute_elements a = Some (snd k)) (g, n))
          (map (\<lambda>(g, n).
            (let members = filter (\<lambda>r. group_col r = Some g \<and> compute_elements r = Some n)
                             results
             in \<lparr>walltime = mean (map walltime members),
                 filter_value = mean (map filter_value members),
                 group_col = Some g, compute_elements = Some n\<rparr>)) (group_keys results))
        = (if (g, n) \<in> set (group_keys results) then [(\<lambda>(g, n).
            (let members = filter (\<lambda>r. group_col r = Some g \<and> compute_elements r = Some n)
                             results
             in \<lparr>walltime = mean (map walltime members),
                 filter_value = mean (map filter_value members),
                 group_col = Some g, compute_elements = Some n\<rparr>)) (g, n)] else [])"
    by (rule filter_keyed_map [OF d]) (auto simp: Let_def)
  then show ?thesis by (simp add: groupby_mean_def Let_def)
qed

lemma groupby_mean_categorical_key:
  "filter (\<lambda>a. category a = Some c) (groupby_mean_categorical results) =
     (if c \<in> set (category_keys results)
      then [\<lparr>walltime = mean (map walltime (filter (\<lambda>r. category r = Some c) results)),
             filter_value = mean (map filter_value (filter (\<lambda>r. category r = Some c) results)),
             category = Some c\<rparr>]
      else [])"
proof -
  have d: "distinct (category_keys results)" by (simp add: category_keys_def)
  have "filter ((\<lambda>k a. category a = Some k) c)
          (map (\<lambda>c.
            (let members = filter (\<lambda>r. category r = Some c) results
             in \<lparr>walltime = mean (map walltime members),
                 filter_value = mean (map filter_value members),
                 category = Some c\<rparr>)) (category_keys results))
        = (if c \<in> set (category_keys results) then [(\<lambda>c.
            (let members = filter (\<lambda>r. category r = Some c) results
             in \<lparr>walltime = mean (map walltime members),
                 filter_value = mean (map filter_value members),
                 category = Some c\<rparr>)) c] else [])"
    by (rule filter_keyed_map [OF d]) (auto simp: Let_def)
  then show ?thesis by (simp add: groupby_mean_categorical_def Let_def)
qed

lemma aggregate_pair:
  assumes "filter (\<lambda>r. group_col r = Some g \<and> compute_elements r = Some n)
             (filter_results args table) = members"
      and "members \<noteq> []"
  shows "\<exists>a ws. filter (\<lambda>a. group_col a = Some g \<and> compute_elements a = Some n)
                  (groupby_mean (filter_results args table)) = [a]
              \<and> map walltime members = map Some ws
              \<and> walltime a = Some (sum_list ws / real (length ws))"
proof -
  let ?R = "filter_results args table"
  obtain r where "r \<in> set members" using assms(2) by (cases members) auto
  then have "(g, n) \<in> set (group_keys ?R)"
    using assms(1) by (auto simp: set_group_keys)
  moreover have "\<forall>r \<in> set members. gt0 (walltime r)"
    using assms(1) filter_results_positive by auto
  then obtain ws where ws: "map walltime members = map Some ws"
    using positive_cells by blast
  moreover have "ws \<noteq> []" using ws assms(2) by auto
  ultimately show ?thesis
    using assms(1) by (simp add: groupby_mean_key mean_of_present)
qed

lemma aggregate_category:
  assumes "filter (\<lambda>r. category r = Some c) (filter_results_categorical args table) = members"
      and "members \<noteq> []"
  shows "\<exists>a ws. filter (\<lambda>a. category a = Some c)
                  (groupby_mean_categorical (filter_results_categorical args table)) = [a]
              \<and> map walltime members = map Some ws
              \<and> walltime a = Some (sum_list ws / real (length ws))"
proof -
  let ?R = "filter_results_categorical args table"
  obtain r where "r \<in> set members" using assms(2) by (cases members) auto
  then have "c \<in> set (category_keys ?R)"
    using assms(1) by (auto simp: set_category_keys)
  moreover have "\<forall>r \<in> set members. gt0 (walltime r)"
    using assms(1) filter_results_categorical_positive by auto
  then obtain ws where ws: "map walltime members = map Some ws"
    using positive_cells by blast
  moreover have "ws \<noteq> []" using ws assms(2) by auto
  ultimately show ?thesis
    using assms(1) by (simp add: groupby_mean_categorical_key mean_of_present)
qed


text \<open>
  Claim C4. Let \<open>R\<close> be the table after filtering. (1) For every pair
  (group, compute_elements) that rows of \<open>R\<close> share, the aggregated table has exactly
  one row with that pair, and its walltime is the sum of the walltimes of those rows
  divided by their number. (2) The aggregated table has no other row. (3) When a single
  row of \<open>R\<close> has the pair, the aggregated row has that row's walltime. (4), (5) The
  same for a category in the categorical script. (6) Two rows with the same pair and
  the walltimes 10 and 20 aggregate to one row with the walltime 15.
\<close>

theorem aggregation_is_the_mean:
  "(filter (\<lambda>r. group_col r = Some g \<and> compute_elements r = Some n)
       (filter_results args table) = members \<and> members \<noteq> []
     \<longrightarrow> (\<exists>a ws. filter (\<lambda>a. group_col a = Some g \<and> compute_elements a = Some n)
                     (groupby_mean (filter_results args table)) = [a]
                 \<and> map walltime members = map Some ws
                 \<and> walltime a = Some (sum_list ws / real (length ws))))
   \<and> (b \<in> set (groupby_mean (filter_results args table))
     \<longrightarrow> (\<exists>g n. group_col b = Some g \<and> compute_elements b = Some n
               \<and> (\<exists>r \<in> set (filter_results args table).
                     group_col r = Some g \<and> compute_elements r = Some n)))
   \<and> (filter (\<lambda>r. group_col r = Some g' \<and> compute_elements r = Some n')
       (filter_results args table) = [r1]
     \<longrightarrow> (\<exists>a. filter (\<lambda>a. group_col a = Some g' \<and> compute_elements a = Some n')
                  (groupby_mean (filter_results args table)) = [a]
              \<and> walltime a = walltime r1))
   \<and> (filter (\<lambda>r. category r = Some c) (filter_results_categorical cargs ctable) = cmembers
       \<and> cmembers \<noteq> []
     \<longrightarrow> (\<exists>a ws. filter (\<lambda>a. category a = Some c)
                     (groupby_mean_categorical (filter_results_categorical cargs ctable)) = [a]
                 \<and> map walltime cmembers = map Some ws
                 \<and> walltime a = Some (sum_list ws / real (length ws))))
   \<and> (filter (\<lambda>r. category r = Some c') (filter_results_categorical cargs ctable) = [r2]
     \<longrightarrow> (\<exists>a. filter (\<lambda>a. category a = Some c')
                  (groupby_mean_categorical (filter_results_categorical cargs ctable)) = [a]
              \<and> walltime a = walltime r2))
   \<and> groupby_mean (filter_results example_args [row ''A'' 2 10, row ''A'' 2 20])
       = [row ''A'' 2 15]"
proof (intro conjI impI)
  assume "filter (\<lambda>r. group_col r = Some g \<and> compute_elements r = Some n)
            (filter_results args table) = members \<and> members \<noteq> []"
  then show "\<exists>a ws. filter (\<lambda>a. group_col a = Some g \<and> compute_elements a = Some n)
                     (groupby_mean (filter_results args table)) = [a]
                 \<and> map walltime members = map Some ws
                 \<and> walltime a = Some (sum_list ws / real (length ws))"
    using aggregate_pair by blast
next
  assume "b \<in> set (groupby_mean (filter_results args table))"
  from groupby_mean_row [OF this]
  show "\<exists>g n. group_col b = Some g \<and> compute_elements b = Some n
               \<and> (\<exists>r \<in> set (filter_results args table).
                     group_col r = Some g \<and> compute_elements r = Some n)"
    by (auto simp: set_group_keys)
next
  assume one: "filter (\<lambda>r. group_col r = Some g' \<and> compute_elements r = Some n')
                 (filter_results args table) = [r1]"
  from aggregate_pair [OF this] obtain a ws where
    a: "filter (\<lambda>a. group_col a = Some g' \<and> compute_elements a = Some n')
          (groupby_mean (filter_results args table)) = [a]"
    and ws: "map walltime [r1] = map Some ws"
    and m: "walltime a = Some (sum_list ws / real (length ws))"
    by blast
  from ws obtain t where "ws = [t]" "walltime r1 = Some t" by auto
  with a m show "\<exists>a. filter (\<lambda>a. group_col a = Some g' \<and> compute_elements a = Some n')
                  (groupby_mean (filter_results args table)) = [a]
              \<and> walltime a = walltime r1"
    by simp
next
  assume "filter (\<lambda>r. category r = Some c) (filter_results_categorical cargs ctable) = cmembers
       \<and> cmembers \<noteq> []"
  then show "\<exists>a ws. filter (\<lambda>a. category a = Some c)
                     (groupby_mean_categorical (filter_results_categorical cargs ctable)) = [a]
                 \<and> map walltime cmembers = map Some ws
                 \<and> walltime a = Some (sum_list ws / real (length ws))"
    using aggregate_category by blast
next
  assume one: "filter (\<lambda>r. category r = Some c') (filter_results_categorical cargs ctable)
                 = [r2]"
  from aggregate_category [OF this] obtain a ws where
    a: "filter (\<lambda>a. category a = Some c')
          (groupby_mean_categorical (filter_results_categorical cargs ctable)) = [a]"
    and ws: "map walltime [r2] = map Some ws"
    and m: "walltime a = Some (sum_list ws / real (length ws))"
    by blast
  from ws obtain t where "ws = [t]" "walltime r2 = Some t" by auto
  with a m show "\<exists>a. filter (\<lambda>a. category a = Some c')
                  (groupby_mean_categorical (filter_results_categorical cargs ctable)) = [a]
              \<and> walltime a = walltime r2"
    by simp
next
  show "groupby_mean (filter_results example_args [row ''A'' 2 10, row ''A'' 2 20])
          = [row ''A'' 2 15]"
    by (simp add: groupby_mean_def group_keys_def filter_results_def example_args_def
          row_def mean_def present_def)
qed

lemma duplicates_aggregated:
  "groupby_mean (filter_results example_args duplicates) = [row ''A'' 1 7, row ''A'' 2 15]"
  by (simp add: groupby_mean_def group_keys_def filter_results_def example_args_def
        duplicates_def row_def mean_def present_def)

theorem aggregation_is_the_mean_witness:
  "(\<exists>a. filter (\<lambda>a. group_col a = Some ''A'' \<and> compute_elements a = Some 2)
           (groupby_mean (filter_results example_args duplicates)) = [a]
        \<and> walltime a = Some 15)
   \<and> (\<exists>a. filter (\<lambda>a. group_col a = Some ''A'' \<and> compute_elements a = Some 1)
           (groupby_mean (filter_results example_args duplicates)) = [a]
        \<and> walltime a = Some 7)
   \<and> (\<exists>r \<in> set (filter_results example_args duplicates).
         group_col r = Some ''A'' \<and> compute_elements r = Some 2)
   \<and> (\<exists>a. filter (\<lambda>a. category a = Some ''v1'')
           (groupby_mean_categorical
              (filter_results_categorical example_categorical_args category_duplicates)) = [a]
        \<and> walltime a = Some 40)
   \<and> (\<exists>a. filter (\<lambda>a. category a = Some ''v2'')
           (groupby_mean_categorical
              (filter_results_categorical example_categorical_args category_duplicates)) = [a]
        \<and> walltime a = Some 25)"
proof -
  let ?R = "filter_results example_args duplicates"
  let ?C = "filter_results_categorical example_categorical_args category_duplicates"
  have 1: "filter (\<lambda>r. group_col r = Some ''A'' \<and> compute_elements r = Some 2) ?R
             = [row ''A'' 2 10, row ''A'' 2 20] \<and> [row ''A'' 2 10, row ''A'' 2 20] \<noteq> []"
    by (simp add: filter_results_def example_args_def duplicates_def row_def)
  have 2: "row ''A'' 2 15 \<in> set (groupby_mean ?R)"
    by (simp add: duplicates_aggregated)
  have 3: "filter (\<lambda>r. group_col r = Some ''A'' \<and> compute_elements r = Some 1) ?R
             = [row ''A'' 1 7]"
    by (simp add: filter_results_def example_args_def duplicates_def row_def)
  have 4: "filter (\<lambda>r. category r = Some ''v1'') ?C
             = [category_row ''v1'' 50, category_row ''v1'' 30]
           \<and> [category_row ''v1'' 50, category_row ''v1'' 30] \<noteq> []"
    by (simp add: filter_results_categorical_def example_categorical_args_def
          category_duplicates_def category_row_def)
  have 5: "filter (\<lambda>r. category r = Some ''v2'') ?C = [category_row ''v2'' 25]"
    by (simp add: filter_results_categorical_def example_categorical_args_def
          category_duplicates_def category_row_def)
  note agg = aggregation_is_the_mean
      [of "''A''" 2 example_args duplicates "[row ''A'' 2 10, row ''A'' 2 20]"
          "row ''A'' 2 15" "''A''" 1 "row ''A'' 1 7"
          "''v1''" example_categorical_args category_duplicates
          "[category_row ''v1'' 50, category_row ''v1'' 30]" "''v2''"
          "category_row ''v2'' 25"]
  from agg 1 obtain a ws where
    a: "filter (\<lambda>a. group_col a = Some ''A'' \<and> compute_elements a = Some 2)
          (groupby_mean ?R) = [a]"
    and ws: "map walltime [row ''A'' 2 10, row ''A'' 2 20] = map Some ws"
    and m: "walltime a = Some (sum_list ws / real (length ws))"
    by blast
  from ws have "ws = [10, 20]" by (auto simp: row_def)
  with m have "walltime a = Some 15" by simp
  with a have c1: "\<exists>a. filter (\<lambda>a. group_col a = Some ''A'' \<and> compute_elements a = Some 2)
           (groupby_mean ?R) = [a] \<and> walltime a = Some 15"
    by blast
  from agg 3 have c2: "\<exists>a. filter (\<lambda>a. group_col a = Some ''A'' \<and> compute_elements a = Some 1)
           (groupby_mean ?R) = [a] \<and> walltime a = Some 7"
    by (simp add: row_def)
  from agg 2 have c3: "\<exists>r \<in> set ?R. group_col r = Some ''A'' \<and> compute_elements r = Some 2"
    by (simp add: row_def)
  from agg 4 obtain a' ws' where
    a': "filter (\<lambda>a. category a = Some ''v1'') (groupby_mean_categorical ?C) = [a']"
    and ws': "map walltime [category_row ''v1'' 50, category_row ''v1'' 30] = map Some ws'"
    and m': "walltime a' = Some (sum_list ws' / real (length ws'))"
    by blast
  from ws' have "ws' = [50, 30]" by (auto simp: category_row_def)
  with m' have "walltime a' = Some 40" by simp
  with a' have c4: "\<exists>a. filter (\<lambda>a. category a = Some ''v1'') (groupby_mean_categorical ?C)
           = [a] \<and> walltime a = Some 40"
    by blast
  from agg 5 have c5: "\<exists>a. filter (\<lambda>a. category a = Some ''v2'') (groupby_mean_categorical ?C)
           = [a] \<and> walltime a = Some 25"
    by (simp add: category_row_def)
  from c1 c2 c3 c4 c5 show ?thesis by blast
qed

subsection \<open>What a successful run draws and saves\<close>


lemma scaling_main_success:
  assumes "scaling_main args table w = (Inr c, w')"
  shows "\<exists>frames.
           calculate_all (group_dataframes (groupby_mean (filter_results args table)))
             = Inr frames
         \<and> frames \<noteq> []
         \<and> walltime_chart c
             = zip (walltimes (assemble frames)) (zip colours (series_names (assemble frames)))
         \<and> efficiency_chart c
             = zip (if weak args then weak_efficiencies (assemble frames)
                    else strong_efficiencies (assemble frames))
                   (zip colours (series_names (assemble frames)))
         \<and> speedup_chart c
             = (if weak args then None
                else Some (zip (speedups (assemble frames))
                             (zip colours (series_names (assemble frames)))))
         \<and> w' = (let w1 = use_style args w;
                      w2 = finish (window args)
                             (add_optional_prefix ''walltime'' (file_prefix_arg args) ''-'') w1;
                      w3 = finish (window args)
                             (add_optional_prefix
                                (if weak args then ''weak-efficiency'' else ''strong-efficiency'')
                                (file_prefix_arg args) ''-'') w2
                  in if weak args then w3
                     else finish (window args)
                            (add_optional_prefix ''speedup'' (file_prefix_arg args) ''-'') w3)"
  using assms
  by (auto simp: scaling_main_def Let_def plot_walltime_def plot_efficiency_def
        plot_speedup_def finish_def assemble_def
      split: sum.splits if_splits prod.splits)


text \<open>
  Groups that do not share their set of compute elements end the run in the first plot
  function, with nothing saved or shown.
\<close>

lemma ragged_groups_raise:
  "scaling_main example_args ragged_groups example_world = (Inl ValueError, example_world)"
  by code_simp



lemma zip3_nth:
  "i < length xs \<Longrightarrow> i < length ys \<Longrightarrow> i < length zs \<Longrightarrow>
     zip xs (zip ys zs) ! i = (xs ! i, ys ! i, zs ! i)"
  by simp






subsection \<open>Names of the saved files\<close>


lemma takeWhile_tail_part:
  assumes "CHR ''/'' \<notin> set q"
  shows "takeWhile (\<lambda>c. c \<noteq> CHR ''/'') (rev q @ (CHR ''/'' # rev d)) = rev q"
proof -
  have "takeWhile (\<lambda>c. c \<noteq> CHR ''/'') (rev q @ (CHR ''/'' # rev d))
          = rev q @ takeWhile (\<lambda>c. c \<noteq> CHR ''/'') (CHR ''/'' # rev d)"
    by (rule takeWhile_append2) (use assms in auto)
  then show ?thesis by simp
qed

lemma dir_not_all_slashes:
  assumes "d \<noteq> []" "last d \<noteq> CHR ''/''"
  shows "\<not> list_all (\<lambda>c. c = CHR ''/'') (d @ ''/'')"
proof -
  have "last d \<in> set d" using assms(1) by (rule last_in_set)
  then show ?thesis using assms(2) by (auto simp: list_all_iff)
qed

lemma dir_rstrip:
  assumes "d \<noteq> []" "last d \<noteq> CHR ''/''"
  shows "dropWhile (\<lambda>c. c = CHR ''/'') (rev (d @ ''/'')) = rev d"
proof -
  obtain ys y where d: "d = ys @ [y]" using assms(1) by (cases d rule: rev_cases) auto
  then have "y \<noteq> CHR ''/''" using assms(2) by simp
  then show ?thesis by (simp add: d)
qed


lemma os_path_split_dir:
  assumes "d \<noteq> []" "last d \<noteq> CHR ''/''" "CHR ''/'' \<notin> set q"
  shows "os_path_split (d @ ''/'' @ q) = (d, q)"
proof -
  have tw: "takeWhile (\<lambda>c. c \<noteq> CHR ''/'') (rev (d @ ''/'' @ q)) = rev q"
    using takeWhile_tail_part [OF assms(3), of d] by simp
  have hd: "take (length (d @ ''/'' @ q) - length q) (d @ ''/'' @ q) = d @ ''/''"
    by simp
  have "os_path_split (d @ ''/'' @ q) =
     (let tail = rev (rev q);
          head = take (length (d @ ''/'' @ q) - length tail) (d @ ''/'' @ q)
      in if head \<noteq> [] \<and> \<not> list_all (\<lambda>c. c = CHR ''/'') head
         then (rev (dropWhile (\<lambda>c. c = CHR ''/'') (rev head)), tail)
         else (head, tail))"
    unfolding os_path_split_def tw ..
  also have "\<dots> = (if d @ ''/'' \<noteq> [] \<and> \<not> list_all (\<lambda>c. c = CHR ''/'') (d @ ''/'')
         then (rev (dropWhile (\<lambda>c. c = CHR ''/'') (rev (d @ ''/''))), q)
         else (d @ ''/'', q))"
    unfolding Let_def rev_rev_ident hd ..
  also have "\<dots> = (d, q)"
    unfolding dir_rstrip [OF assms(1,2)] using dir_not_all_slashes [OF assms(1,2)] by simp
  finally show ?thesis .
qed


lemma os_path_split_plain:
  assumes "CHR ''/'' \<notin> set p"
  shows "os_path_split p = ([], p)"
proof -
  have tw: "takeWhile (\<lambda>c. c \<noteq> CHR ''/'') (rev p) = rev p"
    using assms by (auto simp: takeWhile_eq_all_conv)
  show ?thesis unfolding os_path_split_def Let_def tw by simp
qed

lemma makedirs_member: "name \<in> set (makedirs name ds)"
  by (subst makedirs.simps) simp

lemma with_directory_member: "d \<in> set (with_directory d ds)"
  by (simp add: with_directory_def makedirs_member)

lemma with_directory_again [simp]:
  "with_directory d (with_directory d ds) = with_directory d ds"
  by (simp add: with_directory_def makedirs_member)

lemma save_unfold:
  "os_path_split path = (dir, tail) \<Longrightarrow>
   save path ext w =
     (if (if dir = [] then ''.'' else dir) \<notin> set (dirs w)
      then w\<lparr>dirs := makedirs (if dir = [] then ''.'' else dir) (dirs w)\<rparr> else w)
     \<lparr>saved := saved w @ [os_path_join (if dir = [] then ''.'' else dir) (tail @ ''.'' @ ext)],
      printed := printed w @
        [''Saving figure to '' @ [CHR 0x27]
           @ os_path_join (if dir = [] then ''.'' else dir) (tail @ ''.'' @ ext)
           @ [CHR 0x27] @ ''...'', ''Done'']\<rparr>"
  by (simp add: save_def Let_def)


lemma saved_plain:
  assumes "CHR ''/'' \<notin> set p"
  shows "saved (save p ext w) = saved w @ [''./'' @ p @ ''.'' @ ext]
   \<and> shown (save p ext w) = shown w
   \<and> dirs (save p ext w) = with_directory ''.'' (dirs w)"
proof -
  have "hd (p @ ''.'' @ ext) \<noteq> CHR ''/''"
    using assms by (cases p) auto
  then have j: "os_path_join ''.'' (p @ ''.'' @ ext) = ''./'' @ p @ ''.'' @ ext"
    by (simp add: os_path_join_def)
  show ?thesis
    unfolding save_unfold [OF os_path_split_plain [OF assms]] using j
    by (auto simp: with_directory_def)
qed

lemma saved_dir:
  assumes "d \<noteq> []" "last d \<noteq> CHR ''/''" "CHR ''/'' \<notin> set q"
  shows "saved (save (d @ ''/'' @ q) ext w) = saved w @ [d @ ''/'' @ q @ ''.'' @ ext]
   \<and> shown (save (d @ ''/'' @ q) ext w) = shown w
   \<and> dirs (save (d @ ''/'' @ q) ext w) = with_directory d (dirs w)"
proof -
  have "hd (q @ ''.'' @ ext) \<noteq> CHR ''/''"
    using assms(3) by (cases q) auto
  then have j: "os_path_join d (q @ ''.'' @ ext) = d @ ''/'' @ q @ ''.'' @ ext"
    using assms(1,2) by (simp add: os_path_join_def)
  show ?thesis
    unfolding save_unfold [OF os_path_split_dir [OF assms]] using j assms(1)
    by (auto simp: with_directory_def)
qed


lemma run_shown:
  assumes run: "scaling_main args table w = (Inr c, w')" and win: "window args"
  shows "saved w' = saved w \<and> shown w' = shown w + (if weak args then 2 else 3)"
  using scaling_main_success [OF run] win
  by (auto simp: Let_def finish_def use_style_frame)

lemma run_saved:
  assumes run: "scaling_main args table w = (Inr c, w')" and win: "\<not> window args"
      and f1: "\<And>v. saved (save (add_optional_prefix ''walltime'' (file_prefix_arg args) ''-'')
                         ''png'' v) = saved v @ [x1]
                   \<and> shown (save (add_optional_prefix ''walltime'' (file_prefix_arg args) ''-'')
                         ''png'' v) = shown v
                   \<and> dirs (save (add_optional_prefix ''walltime'' (file_prefix_arg args) ''-'')
                         ''png'' v) = with_directory d (dirs v)"
      and f2: "\<And>v. saved (save (add_optional_prefix
                           (if weak args then ''weak-efficiency'' else ''strong-efficiency'')
                           (file_prefix_arg args) ''-'') ''png'' v) = saved v @ [x2]
                   \<and> shown (save (add_optional_prefix
                           (if weak args then ''weak-efficiency'' else ''strong-efficiency'')
                           (file_prefix_arg args) ''-'') ''png'' v) = shown v
                   \<and> dirs (save (add_optional_prefix
                           (if weak args then ''weak-efficiency'' else ''strong-efficiency'')
                           (file_prefix_arg args) ''-'') ''png'' v) = with_directory d (dirs v)"
      and f3: "\<And>v. saved (save (add_optional_prefix ''speedup'' (file_prefix_arg args) ''-'')
                         ''png'' v) = saved v @ [x3]
                   \<and> shown (save (add_optional_prefix ''speedup'' (file_prefix_arg args) ''-'')
                         ''png'' v) = shown v
                   \<and> dirs (save (add_optional_prefix ''speedup'' (file_prefix_arg args) ''-'')
                         ''png'' v) = with_directory d (dirs v)"
  shows "saved w' = saved w @ [x1, x2] @ (if weak args then [] else [x3])
       \<and> shown w' = shown w
       \<and> dirs w' = with_directory d (dirs w)"
proof -
  from scaling_main_success [OF run] have
    "w' = (let w1 = use_style args w;
               w2 = finish (window args)
                      (add_optional_prefix ''walltime'' (file_prefix_arg args) ''-'') w1;
               w3 = finish (window args)
                      (add_optional_prefix
                         (if weak args then ''weak-efficiency'' else ''strong-efficiency'')
                         (file_prefix_arg args) ''-'') w2
           in if weak args then w3
              else finish (window args)
                     (add_optional_prefix ''speedup'' (file_prefix_arg args) ''-'') w3)"
    by blast
  then show ?thesis
    using win f1 f2 f3
    by (cases "weak args") (simp_all add: Let_def finish_def use_style_frame)
qed


lemma plain_name:
  assumes "CHR ''/'' \<notin> set p" "CHR ''/'' \<notin> set base"
  shows "saved (save (p @ base) ''png'' v) = saved v @ [''./'' @ p @ base @ ''.png'']
       \<and> shown (save (p @ base) ''png'' v) = shown v
       \<and> dirs (save (p @ base) ''png'' v) = with_directory ''.'' (dirs v)"
  using saved_plain [of "p @ base" "''png''" v] assms by simp

lemma dir_name:
  assumes "d \<noteq> []" "last d \<noteq> CHR ''/''" "CHR ''/'' \<notin> set q" "CHR ''/'' \<notin> set base"
  shows "saved (save ((d @ ''/'' @ q) @ base) ''png'' v)
           = saved v @ [d @ ''/'' @ q @ base @ ''.png'']
       \<and> shown (save ((d @ ''/'' @ q) @ base) ''png'' v) = shown v
       \<and> dirs (save ((d @ ''/'' @ q) @ base) ''png'' v) = with_directory d (dirs v)"
  using saved_dir [of d "q @ base" "''png''" v] assms by simp

lemma run_saved_no_prefix:
  assumes run: "scaling_main args table w = (Inr c, w')" and win: "\<not> window args"
      and pre: "file_prefix_arg args = None \<or> file_prefix_arg args = Some []"
  shows "saved w' = saved w @ [''./walltime.png'',
                               if weak args then ''./weak-efficiency.png''
                               else ''./strong-efficiency.png'']
                      @ (if weak args then [] else [''./speedup.png''])
       \<and> shown w' = shown w \<and> dirs w' = with_directory ''.'' (dirs w)"
proof (rule run_saved [OF run win])
  fix v
  have n: "add_optional_prefix base (file_prefix_arg args) ''-'' = [] @ base" for base
    using pre by (auto simp: add_optional_prefix_def)
  show "saved (save (add_optional_prefix ''walltime'' (file_prefix_arg args) ''-'') ''png'' v)
          = saved v @ [''./walltime.png'']
      \<and> shown (save (add_optional_prefix ''walltime'' (file_prefix_arg args) ''-'') ''png'' v)
          = shown v
      \<and> dirs (save (add_optional_prefix ''walltime'' (file_prefix_arg args) ''-'')
                      ''png'' v) = with_directory ''.'' (dirs v)"
    unfolding n using plain_name [of "[]" "''walltime''" v] by simp
  show "saved (save (add_optional_prefix ''speedup'' (file_prefix_arg args) ''-'') ''png'' v)
          = saved v @ [''./speedup.png'']
      \<and> shown (save (add_optional_prefix ''speedup'' (file_prefix_arg args) ''-'') ''png'' v)
          = shown v
      \<and> dirs (save (add_optional_prefix ''speedup'' (file_prefix_arg args) ''-'')
                      ''png'' v) = with_directory ''.'' (dirs v)"
    unfolding n using plain_name [of "[]" "''speedup''" v] by simp
  show "saved (save (add_optional_prefix
                       (if weak args then ''weak-efficiency'' else ''strong-efficiency'')
                       (file_prefix_arg args) ''-'') ''png'' v)
          = saved v @ [if weak args then ''./weak-efficiency.png''
                       else ''./strong-efficiency.png'']
      \<and> shown (save (add_optional_prefix
                       (if weak args then ''weak-efficiency'' else ''strong-efficiency'')
                       (file_prefix_arg args) ''-'') ''png'' v) = shown v
      \<and> dirs (save (add_optional_prefix
                       (if weak args then ''weak-efficiency'' else ''strong-efficiency'')
                       (file_prefix_arg args) ''-'') ''png'' v) = with_directory ''.'' (dirs v)"
    unfolding n
    using plain_name [of "[]" "''weak-efficiency''" v]
          plain_name [of "[]" "''strong-efficiency''" v]
    by (cases "weak args") simp_all
qed


lemma run_saved_prefix:
  assumes run: "scaling_main args table w = (Inr c, w')" and win: "\<not> window args"
      and pre: "file_prefix_arg args = Some p" "p \<noteq> []" "CHR ''/'' \<notin> set p"
  shows "saved w' = saved w @ [''./'' @ p @ ''-walltime.png'',
                               ''./'' @ p @ (if weak args then ''-weak-efficiency.png''
                                        else ''-strong-efficiency.png'')]
                      @ (if weak args then [] else [''./'' @ p @ ''-speedup.png''])
       \<and> shown w' = shown w \<and> dirs w' = with_directory ''.'' (dirs w)"
proof (rule run_saved [OF run win])
  fix v
  have n: "add_optional_prefix base (file_prefix_arg args) ''-'' = p @ (''-'' @ base)" for base
    using pre by (simp add: add_optional_prefix_def)
  show "saved (save (add_optional_prefix ''walltime'' (file_prefix_arg args) ''-'') ''png'' v)
          = saved v @ [''./'' @ p @ ''-walltime.png'']
      \<and> shown (save (add_optional_prefix ''walltime'' (file_prefix_arg args) ''-'') ''png'' v)
          = shown v
      \<and> dirs (save (add_optional_prefix ''walltime'' (file_prefix_arg args) ''-'')
                      ''png'' v) = with_directory ''.'' (dirs v)"
    unfolding n using plain_name [OF pre(3), of "''-walltime''" v] by simp
  show "saved (save (add_optional_prefix ''speedup'' (file_prefix_arg args) ''-'') ''png'' v)
          = saved v @ [''./'' @ p @ ''-speedup.png'']
      \<and> shown (save (add_optional_prefix ''speedup'' (file_prefix_arg args) ''-'') ''png'' v)
          = shown v
      \<and> dirs (save (add_optional_prefix ''speedup'' (file_prefix_arg args) ''-'')
                      ''png'' v) = with_directory ''.'' (dirs v)"
    unfolding n using plain_name [OF pre(3), of "''-speedup''" v] by simp
  show "saved (save (add_optional_prefix
                       (if weak args then ''weak-efficiency'' else ''strong-efficiency'')
                       (file_prefix_arg args) ''-'') ''png'' v)
          = saved v @ [''./'' @ p @ (if weak args then ''-weak-efficiency.png''
                                else ''-strong-efficiency.png'')]
      \<and> shown (save (add_optional_prefix
                       (if weak args then ''weak-efficiency'' else ''strong-efficiency'')
                       (file_prefix_arg args) ''-'') ''png'' v) = shown v
      \<and> dirs (save (add_optional_prefix
                       (if weak args then ''weak-efficiency'' else ''strong-efficiency'')
                       (file_prefix_arg args) ''-'') ''png'' v) = with_directory ''.'' (dirs v)"
    unfolding n
    using plain_name [OF pre(3), of "''-weak-efficiency''" v]
          plain_name [OF pre(3), of "''-strong-efficiency''" v]
    by (cases "weak args") simp_all
qed

lemma run_saved_path:
  assumes run: "scaling_main args table w = (Inr c, w')" and win: "\<not> window args"
      and pre: "file_prefix_arg args = Some (d @ ''/'' @ q)" "d \<noteq> []"
               "last d \<noteq> CHR ''/''" "CHR ''/'' \<notin> set q"
  shows "saved w' = saved w @ [d @ ''/'' @ q @ ''-walltime.png'',
                               d @ ''/'' @ q @ (if weak args then ''-weak-efficiency.png''
                                        else ''-strong-efficiency.png'')]
                      @ (if weak args then [] else [d @ ''/'' @ q @ ''-speedup.png''])
       \<and> shown w' = shown w \<and> dirs w' = with_directory d (dirs w)"
proof (rule run_saved [OF run win])
  fix v
  have n: "add_optional_prefix base (file_prefix_arg args) ''-''
             = (d @ ''/'' @ q) @ (''-'' @ base)" for base
    using pre by (simp add: add_optional_prefix_def)
  show "saved (save (add_optional_prefix ''walltime'' (file_prefix_arg args) ''-'') ''png'' v)
          = saved v @ [d @ ''/'' @ q @ ''-walltime.png'']
      \<and> shown (save (add_optional_prefix ''walltime'' (file_prefix_arg args) ''-'') ''png'' v)
          = shown v
      \<and> dirs (save (add_optional_prefix ''walltime'' (file_prefix_arg args) ''-'')
                      ''png'' v) = with_directory d (dirs v)"
    unfolding n using dir_name [OF pre(2,3,4), of "''-walltime''" v] by simp
  show "saved (save (add_optional_prefix ''speedup'' (file_prefix_arg args) ''-'') ''png'' v)
          = saved v @ [d @ ''/'' @ q @ ''-speedup.png'']
      \<and> shown (save (add_optional_prefix ''speedup'' (file_prefix_arg args) ''-'') ''png'' v)
          = shown v
      \<and> dirs (save (add_optional_prefix ''speedup'' (file_prefix_arg args) ''-'')
                      ''png'' v) = with_directory d (dirs v)"
    unfolding n using dir_name [OF pre(2,3,4), of "''-speedup''" v] by simp
  show "saved (save (add_optional_prefix
                       (if weak args then ''weak-efficiency'' else ''strong-efficiency'')
                       (file_prefix_arg args) ''-'') ''png'' v)
          = saved v @ [d @ ''/'' @ q @ (if weak args then ''-weak-efficiency.png''
                                else ''-strong-efficiency.png'')]
      \<and> shown (save (add_optional_prefix
                       (if weak args then ''weak-efficiency'' else ''strong-efficiency'')
                       (file_prefix_arg args) ''-'') ''png'' v) = shown v
      \<and> dirs (save (add_optional_prefix
                       (if weak args then ''weak-efficiency'' else ''strong-efficiency'')
                       (file_prefix_arg args) ''-'') ''png'' v) = with_directory d (dirs v)"
    unfolding n
    using dir_name [OF pre(2,3,4), of "''-weak-efficiency''" v]
          dir_name [OF pre(2,3,4), of "''-strong-efficiency''" v]
    by (cases "weak args") simp_all
qed


text \<open>
  Claim C6, as amended. A run of the scaling script that draws its charts and is not
  given \<^verbatim>\<open>--window\<close> saves, in this order, the walltime figure, the efficiency
  figure and, unless \<^verbatim>\<open>--weak\<close> is given, the speedup figure; the extension is always
  \<open>png\<close>. Without a file prefix (or with the empty one) the files are
  \<open>./walltime.png\<close>, \<open>./strong-efficiency.png\<close> (with \<^verbatim>\<open>--weak\<close>:
  \<open>./weak-efficiency.png\<close>) and \<open>./speedup.png\<close>. With a prefix \<open>p\<close> that holds no
  \<open>/\<close> they are \<open>./p-walltime.png\<close> and so on. With a prefix \<open>d/q\<close> they are
  \<open>d/q-walltime.png\<close> and so on, and the directory \<open>d\<close> exists afterwards, made
  with its missing parents when it did not exist. With
  \<^verbatim>\<open>--window\<close> nothing is saved and each figure is shown.
\<close>

theorem saved_file_names:
  assumes "scaling_main args table w = (Inr c, w')"
  shows "(window args
           \<longrightarrow> saved w' = saved w \<and> shown w' = shown w + (if weak args then 2 else 3))
   \<and> (\<not> window args \<and> (file_prefix_arg args = None \<or> file_prefix_arg args = Some [])
           \<longrightarrow> saved w' = saved w @ [''./walltime.png'',
                                       if weak args then ''./weak-efficiency.png''
                                       else ''./strong-efficiency.png'']
                              @ (if weak args then [] else [''./speedup.png''])
               \<and> shown w' = shown w)
   \<and> (\<not> window args \<and> file_prefix_arg args = Some p \<and> p \<noteq> [] \<and> CHR ''/'' \<notin> set p
           \<longrightarrow> saved w' = saved w @ [''./'' @ p @ ''-walltime.png'',
                                       ''./'' @ p @ (if weak args then ''-weak-efficiency.png''
                                                     else ''-strong-efficiency.png'')]
                              @ (if weak args then [] else [''./'' @ p @ ''-speedup.png''])
               \<and> shown w' = shown w)
   \<and> (\<not> window args \<and> file_prefix_arg args = Some (d @ ''/'' @ q) \<and> d \<noteq> []
         \<and> last d \<noteq> CHR ''/'' \<and> CHR ''/'' \<notin> set q
           \<longrightarrow> saved w' = saved w @ [d @ ''/'' @ q @ ''-walltime.png'',
                                       d @ ''/'' @ q @ (if weak args then ''-weak-efficiency.png''
                                                       else ''-strong-efficiency.png'')]
                              @ (if weak args then [] else [d @ ''/'' @ q @ ''-speedup.png''])
               \<and> shown w' = shown w
               \<and> d \<in> set (dirs w')
               \<and> dirs w' = (if d \<in> set (dirs w) then dirs w else makedirs d (dirs w)))"
proof (intro conjI impI)
  assume "window args"
  with run_shown [OF assms]
  show "saved w' = saved w" "shown w' = shown w + (if weak args then 2 else 3)"
    by simp_all
next
  assume h: "\<not> window args \<and> (file_prefix_arg args = None \<or> file_prefix_arg args = Some [])"
  from h have "\<not> window args" "file_prefix_arg args = None \<or> file_prefix_arg args = Some []"
    by simp_all
  from run_saved_no_prefix [OF assms this]
  show "saved w' = saved w @ [''./walltime.png'',
                               if weak args then ''./weak-efficiency.png''
                               else ''./strong-efficiency.png'']
                      @ (if weak args then [] else [''./speedup.png''])"
       "shown w' = shown w"
    by simp_all
next
  assume h: "\<not> window args \<and> file_prefix_arg args = Some p \<and> p \<noteq> [] \<and> CHR ''/'' \<notin> set p"
  from h have "\<not> window args" "file_prefix_arg args = Some p" "p \<noteq> []" "CHR ''/'' \<notin> set p"
    by simp_all
  from run_saved_prefix [OF assms this]
  show "saved w' = saved w @ [''./'' @ p @ ''-walltime.png'',
                               ''./'' @ p @ (if weak args then ''-weak-efficiency.png''
                                             else ''-strong-efficiency.png'')]
                      @ (if weak args then [] else [''./'' @ p @ ''-speedup.png''])"
       "shown w' = shown w"
    by simp_all
next
  assume h: "\<not> window args \<and> file_prefix_arg args = Some (d @ ''/'' @ q) \<and> d \<noteq> []
         \<and> last d \<noteq> CHR ''/'' \<and> CHR ''/'' \<notin> set q"
  from h have "\<not> window args" "file_prefix_arg args = Some (d @ ''/'' @ q)" "d \<noteq> []"
      "last d \<noteq> CHR ''/''" "CHR ''/'' \<notin> set q"
    by simp_all
  from run_saved_path [OF assms this]
  show "saved w' = saved w @ [d @ ''/'' @ q @ ''-walltime.png'',
                               d @ ''/'' @ q @ (if weak args then ''-weak-efficiency.png''
                                               else ''-strong-efficiency.png'')]
                      @ (if weak args then [] else [d @ ''/'' @ q @ ''-speedup.png''])"
       "shown w' = shown w" "d \<in> set (dirs w')"
       "dirs w' = (if d \<in> set (dirs w) then dirs w else makedirs d (dirs w))"
    by (simp_all add: with_directory_member) (simp add: with_directory_def)
qed

lemma makedirs_out: "makedirs ''out'' [''.''] = [''.'', ''out'']"
  by code_simp

text \<open>A nested directory is created with its missing parents.\<close>

lemma save_creates_parents:
  "dirs (save ''a/b/run-walltime'' ''png'' example_world) = [''.'', ''a'', ''a/b'']
   \<and> saved (save ''a/b/run-walltime'' ''png'' example_world) = [''a/b/run-walltime.png'']"
  by code_simp

lemma example_runs:
  "\<exists>c w'. scaling_main window_args scenario example_world = (Inr c, w')"
  "\<exists>c w'. scaling_main example_args scenario example_world = (Inr c, w')"
  "\<exists>c w'. scaling_main prefix_args scenario example_world = (Inr c, w')"
  "\<exists>c w'. scaling_main path_args scenario example_world = (Inr c, w')"
proof -
  have "case scaling_main window_args scenario example_world of
          (Inr c, w') \<Rightarrow> True | _ \<Rightarrow> False"
       "case scaling_main example_args scenario example_world of
          (Inr c, w') \<Rightarrow> True | _ \<Rightarrow> False"
       "case scaling_main prefix_args scenario example_world of
          (Inr c, w') \<Rightarrow> True | _ \<Rightarrow> False"
       "case scaling_main path_args scenario example_world of
          (Inr c, w') \<Rightarrow> True | _ \<Rightarrow> False"
    by code_simp+
  then show
    "\<exists>c w'. scaling_main window_args scenario example_world = (Inr c, w')"
    "\<exists>c w'. scaling_main example_args scenario example_world = (Inr c, w')"
    "\<exists>c w'. scaling_main prefix_args scenario example_world = (Inr c, w')"
    "\<exists>c w'. scaling_main path_args scenario example_world = (Inr c, w')"
    by (auto split: prod.splits sum.splits)
qed

theorem saved_file_names_witness:
  "(\<exists>c w'. scaling_main window_args scenario example_world = (Inr c, w')
       \<and> saved w' = [] \<and> shown w' = 3)
   \<and> (\<exists>c w'. scaling_main example_args scenario example_world = (Inr c, w')
       \<and> saved w' = [''./walltime.png'', ''./strong-efficiency.png'', ''./speedup.png''])
   \<and> (\<exists>c w'. scaling_main prefix_args scenario example_world = (Inr c, w')
       \<and> saved w' = [''./run-walltime.png'', ''./run-weak-efficiency.png''])
   \<and> (\<exists>c w'. scaling_main path_args scenario example_world = (Inr c, w')
       \<and> saved w' = [''out/run-walltime.png'', ''out/run-strong-efficiency.png'',
                     ''out/run-speedup.png'']
       \<and> set (dirs w') = {''out'', ''.''})"
proof (intro conjI)
  from example_runs(1) obtain c w' where
    run: "scaling_main window_args scenario example_world = (Inr c, w')" by blast
  from saved_file_names [OF run]
  have "saved w' = [] \<and> shown w' = 3"
    by (simp add: window_args_def example_args_def example_world_def)
  with run show "\<exists>c w'. scaling_main window_args scenario example_world = (Inr c, w')
       \<and> saved w' = [] \<and> shown w' = 3" by blast
next
  from example_runs(2) obtain c w' where
    run: "scaling_main example_args scenario example_world = (Inr c, w')" by blast
  from saved_file_names [OF run]
  have "saved w' = [''./walltime.png'', ''./strong-efficiency.png'', ''./speedup.png'']"
    by (simp add: example_args_def example_world_def)
  with run show "\<exists>c w'. scaling_main example_args scenario example_world = (Inr c, w')
       \<and> saved w' = [''./walltime.png'', ''./strong-efficiency.png'', ''./speedup.png'']"
    by blast
next
  from example_runs(3) obtain c w' where
    run: "scaling_main prefix_args scenario example_world = (Inr c, w')" by blast
  from saved_file_names [OF run, of "''run''"]
  have "saved w' = [''./run-walltime.png'', ''./run-weak-efficiency.png'']"
    by (simp add: prefix_args_def example_args_def example_world_def)
  with run show "\<exists>c w'. scaling_main prefix_args scenario example_world = (Inr c, w')
       \<and> saved w' = [''./run-walltime.png'', ''./run-weak-efficiency.png'']"
    by blast
next
  from example_runs(4) obtain c w' where
    run: "scaling_main path_args scenario example_world = (Inr c, w')" by blast
  from saved_file_names [OF run, of _ "''out''" "''run''"]
  have "saved w' = [''out/run-walltime.png'', ''out/run-strong-efficiency.png'',
                     ''out/run-speedup.png'']
       \<and> set (dirs w') = {''out'', ''.''}"
    by (auto simp: path_args_def example_args_def example_world_def makedirs_out)
  with run show "\<exists>c w'. scaling_main path_args scenario example_world = (Inr c, w')
       \<and> saved w' = [''out/run-walltime.png'', ''out/run-strong-efficiency.png'',
                     ''out/run-speedup.png'']
       \<and> set (dirs w') = {''out'', ''.''}"
    by blast
qed

text \<open>
  Claim C6 as stated fails: without a prefix the efficiency figure is saved as
  \<open>./strong-efficiency.png\<close>, with \<^verbatim>\<open>--weak\<close> as \<open>./weak-efficiency.png\<close>, never as
  \<open>./efficiency.png\<close>; and with \<^verbatim>\<open>--weak\<close> no speedup figure is saved.
\<close>

theorem efficiency_file_is_not_efficiency_png:
  "saved (snd (scaling_main example_args scenario example_world))
     = [''./walltime.png'', ''./strong-efficiency.png'', ''./speedup.png'']
   \<and> ''./efficiency.png'' \<notin> set (saved (snd (scaling_main example_args scenario example_world)))
   \<and> saved (snd (scaling_main (example_args\<lparr>weak := True\<rparr>) scenario example_world))
     = [''./walltime.png'', ''./weak-efficiency.png'']"
  by code_simp

end
